theory Spec2Isabelle
  imports Main
begin

section \<open>Errors and results\<close>

text \<open>
  A Go function returning \<open>(T, error)\<close> is modelled with result type \<open>error + T\<close>.
  A run-time panic (\<open>netip.MustParseAddr\<close> on a bad literal, a failed type assertion,
  \<open>log.Panicf\<close>) is the error value \<open>Panic\<close>; it is never caught by the program, so
  every caller passes it on.
\<close>

datatype error =
    Panic
  | ErrCFCantConvertValue
  | ErrQuery string
  | ErrWrite string

section \<open>pkg/netbox: addresses\<close>

record IP =
  Address :: string
  Status :: string

abbreviation StatusIPActive :: string where "StatusIPActive \<equiv> ''active''"
abbreviation StatusIPReserved :: string where "StatusIPReserved \<equiv> ''reserved''"
abbreviation StatusIPDeprecated :: string where "StatusIPDeprecated \<equiv> ''deprecated''"
abbreviation StatusIPDHCP :: string where "StatusIPDHCP \<equiv> ''dhcp''"
abbreviation StatusIPSLAAC :: string where "StatusIPSLAAC \<equiv> ''slaac''"

definition isDigit :: "char \<Rightarrow> bool" where
  "isDigit c = (c \<in> set ''0123456789'')"

text \<open>
  \<open>ToAddr\<close> replaces every match of the regular expression \<open>(/\d{0,128})$\<close> in the
  address by the empty string (\<open>stripCIDR\<close>). The expression is anchored at the end of
  the text, so the only possible match is a slash followed by the maximal trailing run of
  digits, when that run has at most 128 digits.
\<close>

definition stripCIDR :: "string \<Rightarrow> string" where
  "stripCIDR s =
     (let r = rev s; ds = takeWhile isDigit r
      in case dropWhile isDigit r of
           [] \<Rightarrow> s
         | c # p \<Rightarrow> if c = CHR ''/'' \<and> length ds \<le> 128 then rev p else s)"

definition ToAddr :: "IP \<Rightarrow> string" where
  "ToAddr ip = stripCIDR (Address ip)"

text \<open>
  The address parser \<open>netip.ParseAddr\<close> belongs to the Go standard library. It is a
  parameter of the model: \<open>parse s = None\<close> when the literal is rejected, otherwise
  \<open>Some b\<close> with \<open>b\<close> the value of \<open>Is6()\<close> on the parsed address.
\<close>

type_synonym netip = "string \<Rightarrow> bool option"

definition Family :: "netip \<Rightarrow> IP \<Rightarrow> error + int" where
  "Family parse ip =
     (case parse (ToAddr ip) of
        None \<Rightarrow> Inl Panic
      | Some is6 \<Rightarrow> if is6 then Inr 6 else Inr 4)"

text \<open>
  For concrete examples the parser is instantiated with the dispatch of
  \<open>netip.ParseAddr\<close>: the first of the characters \<open>.\<close>, \<open>:\<close> and \<open>%\<close> decides whether
  the literal is read as IPv4, as IPv6, or rejected, and a literal with none of them is
  rejected. The syntax checks of the two sub-parsers are left out, so the instance is
  only applied to well-formed literals and to literals without a separator.
\<close>

definition netipDispatch :: netip where
  "netipDispatch s =
     (case List.find (\<lambda>c. c = CHR ''.'' \<or> c = CHR '':'' \<or> c = CHR ''%'') s of
        None \<Rightarrow> None
      | Some c \<Rightarrow> if c = CHR ''.'' then Some False
                  else if c = CHR '':'' then Some True else None)"

section \<open>Configuration\<close>

type_synonym LabelSet = "string \<rightharpoonup> string"

record Filter =
  Label :: string
  Match :: string
  Negate :: bool
  regex :: "string \<Rightarrow> bool"

record Flags =
  IncludeVMs :: bool
  InetFamily :: string
  AllAddresses :: bool

record Group =
  File :: string
  Type :: string
  Match :: string
  ScanInterval :: int
  Labels :: LabelSet
  Port :: "int option"
  Flags :: Flags
  Filters :: "Filter list"

abbreviation GroupTypeDeviceTag :: string where "GroupTypeDeviceTag \<equiv> ''device_tag''"
abbreviation GroupTypeInterfaceTag :: string where "GroupTypeInterfaceTag \<equiv> ''interface_tag''"
abbreviation GroupTypeService :: string where "GroupTypeService \<equiv> ''service''"
abbreviation InetFamilyAny :: string where "InetFamilyAny \<equiv> ''any''"
abbreviation InetFamilyInet :: string where "InetFamilyInet \<equiv> ''inet''"
abbreviation InetFamilyInet6 :: string where "InetFamilyInet6 \<equiv> ''inet6''"

section \<open>selectAddr\<close>

text \<open>
  The three flags are pointers in the source; \<open>validateGroup\<close> fills every nil flag with
  its default before a worker starts, so they are plain values here. An entry of the
  input slice is a pointer and may be nil: \<open>None\<close>.
\<close>

record sel =
  firstInet6 :: "IP option"
  firstInet :: "IP option"
  result :: "IP list"

definition addrExists :: "IP \<Rightarrow> IP list \<Rightarrow> bool" where
  "addrExists needle haystack = list_ex (\<lambda>h. Address h = Address needle) haystack"

definition statusOK :: "IP \<Rightarrow> bool" where
  "statusOK addr =
     (\<not> (Status addr \<noteq> StatusIPActive \<and> Status addr \<noteq> StatusIPDHCP
         \<and> Status addr \<noteq> StatusIPSLAAC))"

text \<open>Body of \<open>case 6\<close>. The \<open>break\<close> of the source leaves the switch, not the loop.\<close>

definition case6 :: "Group \<Rightarrow> IP \<Rightarrow> sel \<Rightarrow> sel" where
  "case6 grp addr s =
     (if InetFamily (Flags grp) = InetFamilyInet6 \<or> InetFamily (Flags grp) = InetFamilyAny
      then
        (let s1 = (if firstInet6 s = None then s\<lparr>firstInet6 := Some addr\<rparr> else s)
         in if AllAddresses (Flags grp)
            then (if \<not> addrExists addr (result s1)
                  then s1\<lparr>result := result s1 @ [addr]\<rparr> else s1)
            else s1)
      else s)"

definition case4 :: "Group \<Rightarrow> IP \<Rightarrow> sel \<Rightarrow> sel" where
  "case4 grp addr s =
     (if InetFamily (Flags grp) = InetFamilyInet \<or> InetFamily (Flags grp) = InetFamilyAny
      then
        (let s1 = (if firstInet s = None then s\<lparr>firstInet := Some addr\<rparr> else s)
         in if AllAddresses (Flags grp)
            then (if \<not> addrExists addr (result s1)
                  then s1\<lparr>result := result s1 @ [addr]\<rparr> else s1)
            else s1)
      else s)"

text \<open>The code after the loop.\<close>

definition selectAddr_finish :: "sel \<Rightarrow> IP list" where
  "selectAddr_finish s =
     (if length (result s) = 0
      then (case firstInet6 s of
              Some a \<Rightarrow> result s @ [a]
            | None \<Rightarrow> (case firstInet s of Some a \<Rightarrow> result s @ [a] | None \<Rightarrow> result s))
      else result s)"

fun selectAddr_loop :: "netip \<Rightarrow> Group \<Rightarrow> IP option list \<Rightarrow> sel \<Rightarrow> error + IP list" where
  "selectAddr_loop parse grp [] s = Inr (selectAddr_finish s)"
| "selectAddr_loop parse grp (None # addrs) s = selectAddr_loop parse grp addrs s"
| "selectAddr_loop parse grp (Some addr # addrs) s =
     (if Status addr \<noteq> StatusIPActive \<and> Status addr \<noteq> StatusIPDHCP
         \<and> Status addr \<noteq> StatusIPSLAAC
      then selectAddr_loop parse grp addrs s
      else (case Family parse addr of
              Inl e \<Rightarrow> Inl e
            | Inr fam \<Rightarrow>
                if fam = 6 then selectAddr_loop parse grp addrs (case6 grp addr s)
                else if fam = 4 then selectAddr_loop parse grp addrs (case4 grp addr s)
                else Inr []))"

definition selectAddr :: "netip \<Rightarrow> IP option list \<Rightarrow> Group \<Rightarrow> error + IP list" where
  "selectAddr parse addrs grp =
     selectAddr_loop parse grp addrs \<lparr>firstInet6 = None, firstInet = None, result = []\<rparr>"

text \<open>
  The entries the loop looks at: not nil and with an accepted lifecycle status, in input
  order.
\<close>

fun candidates :: "IP option list \<Rightarrow> IP list" where
  "candidates [] = []"
| "candidates (None # addrs) = candidates addrs"
| "candidates (Some a # addrs) = (if statusOK a then a # candidates addrs else candidates addrs)"


text \<open>
  Vocabulary for the statements about \<open>selectAddr\<close>: whether the policy admits a family,
  the loop body on an entry whose literal parses, and the insertion of the source's
  \<open>if !addrExists(addr, result) { result = append(result, addr) }\<close> over a list.
\<close>

definition want6 :: "Group \<Rightarrow> bool" where
  "want6 grp =
     (InetFamily (Flags grp) = InetFamilyInet6 \<or> InetFamily (Flags grp) = InetFamilyAny)"

definition want4 :: "Group \<Rightarrow> bool" where
  "want4 grp =
     (InetFamily (Flags grp) = InetFamilyInet \<or> InetFamily (Flags grp) = InetFamilyAny)"

definition famOK :: "netip \<Rightarrow> Group \<Rightarrow> IP \<Rightarrow> bool" where
  "famOK parse grp a =
     (Family parse a = Inr 6 \<and> want6 grp \<or> Family parse a = Inr 4 \<and> want4 grp)"

fun run :: "netip \<Rightarrow> Group \<Rightarrow> IP list \<Rightarrow> sel \<Rightarrow> sel" where
  "run parse grp [] s = s"
| "run parse grp (a # as) s =
     run parse grp as (if Family parse a = Inr 6 then case6 grp a s else case4 grp a s)"

fun addAll :: "IP list \<Rightarrow> IP list \<Rightarrow> IP list" where
  "addAll res [] = res"
| "addAll res (a # as) = addAll (if addrExists a res then res else res @ [a]) as"

section \<open>pkg/netbox: custom fields\<close>

text \<open>
  \<open>Value\<close> has the Go type \<open>interface{}\<close>: the dynamic type of the value is part of it.
  The only use of a float64 value is \<open>int64(v)\<close>, so \<open>VNumber i\<close> stands for a float64
  whose conversion to int64 is \<open>i\<close>. \<open>VOther\<close> is a value of any other dynamic type.
\<close>

datatype cfvalue = VString string | VNumber int | VBool bool | VOther

record CustomField =
  Datatype :: string
  Value :: cfvalue

abbreviation CustomFieldText :: string where "CustomFieldText \<equiv> ''text''"
abbreviation CustomFieldNumber :: string where "CustomFieldNumber \<equiv> ''integer''"
abbreviation CustomFieldBool :: string where "CustomFieldBool \<equiv> ''boolean''"

text \<open>
  The entries of a custom-field map, as \<open>GetAllEntries\<close> hands them to its callback. The
  keys of a Go map are pairwise different.
\<close>

type_synonym CustomFieldMap = "(string \<times> CustomField) list"

text \<open>
  The type assertions \<open>cf.Value.(string)\<close>, \<open>cf.Value.(float64)\<close> and \<open>cf.Value.(bool)\<close>
  have the one-result form: they panic when the dynamic type is another one.
\<close>

definition AsString :: "CustomField \<Rightarrow> error + string" where
  "AsString cf =
     (if Datatype cf \<noteq> CustomFieldText then Inl ErrCFCantConvertValue
      else (case Value cf of VString v \<Rightarrow> Inr v | _ \<Rightarrow> Inl Panic))"

definition AsFloat :: "CustomField \<Rightarrow> error + int" where
  "AsFloat cf =
     (if Datatype cf \<noteq> CustomFieldNumber then Inl ErrCFCantConvertValue
      else (case Value cf of VNumber v \<Rightarrow> Inr v | _ \<Rightarrow> Inl Panic))"

definition AsBool :: "CustomField \<Rightarrow> error + bool" where
  "AsBool cf =
     (if Datatype cf \<noteq> CustomFieldBool then Inl ErrCFCantConvertValue
      else (case Value cf of VBool v \<Rightarrow> Inr v | _ \<Rightarrow> Inl Panic))"

section \<open>Labels\<close>

text \<open>\<open>LabelSet.Merge\<close>: the labels of the argument win over those of the receiver.\<close>

definition Merge :: "LabelSet \<Rightarrow> LabelSet \<Rightarrow> LabelSet" where
  "Merge l other = l ++ other"

text \<open>The verbs \<open>%d\<close> and \<open>%t\<close> of \<open>fmt.Sprintf\<close>.\<close>

definition digit :: "nat \<Rightarrow> char" where
  "digit n = ''0123456789'' ! n"

function showNat :: "nat \<Rightarrow> string" where
  "showNat n = (if n < 10 then [digit n] else showNat (n div 10) @ [digit (n mod 10)])"
  by pat_completeness auto
termination
  by (relation "measure id") auto

definition fmtInt :: "int \<Rightarrow> string" where
  "fmtInt i = (if i < 0 then CHR ''-'' # showNat (nat (- i)) else showNat (nat i))"

definition fmtBool :: "bool \<Rightarrow> string" where
  "fmtBool b = (if b then ''true'' else ''false'')"

section \<open>generateCustomFieldLabels\<close>

text \<open>
  The state of the callback is the pair of the captured variables \<open>allLabels\<close> and
  \<open>gotError\<close> (\<open>None\<close> is the nil error). When a conversion returns an error the
  temporary keeps its zero value and the label is still merged, as in the source.
\<close>

definition cfCallback ::
  "string \<Rightarrow> CustomField \<Rightarrow> LabelSet \<times> error option \<Rightarrow> error + LabelSet \<times> error option" where
  "cfCallback key val st =
     (let allLabels = fst st; gotError = snd st in
      if Datatype val = CustomFieldText then
        (case AsString val of
           Inl Panic \<Rightarrow> Inl Panic
         | Inl err \<Rightarrow> Inr (Merge allLabels [''netbox_'' @ key \<mapsto> []], Some err)
         | Inr tmpStr \<Rightarrow> Inr (Merge allLabels [''netbox_'' @ key \<mapsto> tmpStr], gotError))
      else if Datatype val = CustomFieldNumber then
        (case AsFloat val of
           Inl Panic \<Rightarrow> Inl Panic
         | Inl err \<Rightarrow> Inr (Merge allLabels [''netbox_'' @ key \<mapsto> fmtInt 0], Some err)
         | Inr tmpNum \<Rightarrow> Inr (Merge allLabels [''netbox_'' @ key \<mapsto> fmtInt tmpNum], gotError))
      else if Datatype val = CustomFieldBool then
        (case AsBool val of
           Inl Panic \<Rightarrow> Inl Panic
         | Inl err \<Rightarrow> Inr (Merge allLabels [''netbox_'' @ key \<mapsto> fmtBool False], Some err)
         | Inr tmpBool \<Rightarrow> Inr (Merge allLabels [''netbox_'' @ key \<mapsto> fmtBool tmpBool], gotError))
      else Inr (Merge allLabels Map.empty, gotError))"

fun GetAllEntries ::
  "CustomFieldMap \<Rightarrow> LabelSet \<times> error option \<Rightarrow> error + LabelSet \<times> error option" where
  "GetAllEntries [] st = Inr st"
| "GetAllEntries ((key, val) # cfm) st =
     (case cfCallback key val st of
        Inl e \<Rightarrow> Inl e
      | Inr st' \<Rightarrow> GetAllEntries cfm st')"

definition generateCustomFieldLabels :: "CustomFieldMap \<Rightarrow> error + LabelSet \<times> error option" where
  "generateCustomFieldLabels cfm = GetAllEntries cfm (Map.empty, None)"

section \<open>Filter evaluation\<close>

text \<open>
  Modelled from the spec: the method \<open>FiltersMatch\<close> of \<open>Group\<close> is called by the three
  assemblers and exercised by \<open>TestFiltersMatch\<close>, but its body is not among the source
  files. Following section 4.3 of the specification: for every filter the named label is
  looked up; an absent label fails the filter whatever its negate flag; a present label
  gives \<open>isMatch XOR negate\<close>; the filters are combined by AND, evaluation stops at the
  first failure, and the empty list matches. The compiled regular expression is the
  field \<open>regex\<close>, its \<open>MatchString\<close> a predicate on strings.
\<close>

fun filtersMatch :: "Filter list \<Rightarrow> LabelSet \<Rightarrow> bool" where
  "filtersMatch [] labels = True"
| "filtersMatch (f # fs) labels =
     (case labels (Label f) of
        None \<Rightarrow> False
      | Some v \<Rightarrow> if regex f v \<noteq> Negate f then filtersMatch fs labels else False)"

section \<open>pkg/netbox: devices, interfaces, services\<close>

text \<open>
  The fields \<open>Rack\<close>, \<open>Site\<close>, \<open>Role\<close>, \<open>Tenant\<close> and \<open>Platform\<close> are structs with the single
  field \<open>Name\<close>; they are given by that name.
\<close>

record Device =
  Name :: string
  PrimaryIP4 :: "IP option"
  PrimaryIP6 :: "IP option"
  CustomFields :: CustomFieldMap
  Rack :: string
  Site :: string
  Role :: string
  Tenant :: string
  Platform :: string
  SerialNumber :: string
  AssetTag :: string
  Status :: string
  isVirtual :: bool

abbreviation StatusDeviceActive :: string where "StatusDeviceActive \<equiv> ''active''"

definition IsVirtual :: "Device \<Rightarrow> bool" where
  "IsVirtual d = isVirtual d"

record Interface =
  ID :: nat
  Name :: string
  Enabled :: bool
  CustomFields :: CustomFieldMap
  Device :: Device

text \<open>\<open>Device\<close> and \<open>VM\<close> of a service are pointers, nil when the service is not bound.\<close>

record Service =
  Name :: string
  Device :: "Device option"
  VM :: "Device option"
  Ports :: "int list"
  IPAddresses :: "IP option list"
  CustomFields :: CustomFieldMap

text \<open>
  The inventory client behind \<open>sd.api\<close>: every call returns a complete list or an error.
\<close>

record API =
  GetServicesByName :: "string \<Rightarrow> error + Service list"
  GetDevicesByTag :: "string \<Rightarrow> error + Device list"
  GetVMsByTag :: "string \<Rightarrow> error + Device list"
  GetInterfacesByTag :: "string \<Rightarrow> error + Interface list"
  GetVirtualInterfacesByTag :: "string \<Rightarrow> error + Interface list"
  GetInterfaceIPs :: "nat \<Rightarrow> error + IP option list"
  GetVirtualInterfaceIPs :: "nat \<Rightarrow> error + IP option list"

section \<open>Targets and metrics\<close>

text \<open>\<open>targetgroup.Group\<close> of the Prometheus library.\<close>

record TargetGroup =
  Targets :: "LabelSet list"
  Labels :: LabelSet
  Source :: string

abbreviation AddressLabel :: string where "AddressLabel \<equiv> ''__address__''"

datatype TargetState =
    TargetActive
  | TargetSkippedOther
  | TargetSkippedBadStatus
  | TargetSkippedBadCustomField
  | TargetSkippedNoValidIP
  | TargetSkippedNotMatchingFilters

text \<open>
  The process-wide metrics. The two gauges written per item are kept as the sequence of
  their \<open>Set\<close> calls, oldest first; the per-group metrics are keyed by the group's file.
\<close>

record metrics =
  promTargetState :: "(string \<times> Device \<times> TargetState) list"
  promIPSkipped :: "(string \<times> string \<times> int) list"
  promUpdateError :: "string \<Rightarrow> nat"
  promTargetCount :: "string \<rightharpoonup> nat"
  promUpdateDuration :: "string \<rightharpoonup> int"
  promUpdateTime :: "string \<rightharpoonup> int"

definition SetTargetStatusMetric :: "string \<Rightarrow> Device \<Rightarrow> TargetState \<Rightarrow> metrics \<Rightarrow> metrics" where
  "SetTargetStatusMetric grpFile dev state m =
     m\<lparr>promTargetState := promTargetState m @ [(grpFile, dev, state)]\<rparr>"

text \<open>The calls of \<open>Family\<close> in the loops below can panic, so building targets can.\<close>

fun convertToTargets :: "netip \<Rightarrow> IP list \<Rightarrow> int option \<Rightarrow> error + LabelSet list" where
  "convertToTargets parse [] port = Inr []"
| "convertToTargets parse (ip # ips) port =
     (case (case port of
              Some p \<Rightarrow>
                (case Family parse ip of
                   Inl e \<Rightarrow> Inl e
                 | Inr fam \<Rightarrow>
                     if fam = 4 then Inr [AddressLabel \<mapsto> ToAddr ip @ '':'' @ fmtInt p]
                     else Inr [AddressLabel \<mapsto> ''['' @ ToAddr ip @ '']:'' @ fmtInt p])
            | None \<Rightarrow> Inr [AddressLabel \<mapsto> ToAddr ip]) of
        Inl e \<Rightarrow> Inl e
      | Inr t \<Rightarrow> (case convertToTargets parse ips port of
                    Inl e \<Rightarrow> Inl e
                  | Inr ts \<Rightarrow> Inr (t # ts)))"

section \<open>The target assemblers\<close>

text \<open>
  Modelled from the spec: the method \<open>FiltersMatch\<close> itself, whose body is not among the
  source files; it evaluates the filters of the group on the labels of the target.
\<close>

definition FiltersMatch :: "Group \<Rightarrow> TargetGroup \<Rightarrow> bool" where
  "FiltersMatch grp target = filtersMatch (Filters grp) (TargetGroup.Labels target)"

text \<open>
  The variables a loop over the inventory items carries from one iteration to the next.
  \<open>dynLabels\<close> is declared outside the loop and never reset; \<open>target\<close> is fresh in every
  iteration. A \<open>continue\<close> is the early return of the loop body with the state reached.
\<close>

record loopst =
  dynLabels :: LabelSet
  data :: "TargetGroup list"
  met :: metrics

fun rangeLoop :: "('a \<Rightarrow> loopst \<Rightarrow> error + loopst) \<Rightarrow> 'a list \<Rightarrow> loopst \<Rightarrow> error + loopst" where
  "rangeLoop body [] st = Inr st"
| "rangeLoop body (x # xs) st =
     (case body x st of
        Inl e \<Rightarrow> Inl e
      | Inr st' \<Rightarrow> rangeLoop body xs st')"

definition skip :: "Group \<Rightarrow> Device \<Rightarrow> TargetState \<Rightarrow> loopst \<Rightarrow> loopst" where
  "skip grp dev state st = st\<lparr>met := SetTargetStatusMetric (File grp) dev state (met st)\<rparr>"

subsection \<open>getTargetsByService\<close>

definition servicePorts :: "Group \<Rightarrow> Service \<Rightarrow> int list" where
  "servicePorts grp serv =
     (let ports = (case Port grp of Some p \<Rightarrow> [p] | None \<Rightarrow> Ports serv)
      in if \<not> AllAddresses (Flags grp) \<and> length ports > 1 then [hd ports] else ports)"

fun portTargets :: "netip \<Rightarrow> IP \<Rightarrow> int list \<Rightarrow> error + LabelSet list" where
  "portTargets parse ip [] = Inr []"
| "portTargets parse ip (p # ports) =
     (case Family parse ip of
        Inl e \<Rightarrow> Inl e
      | Inr fam \<Rightarrow>
          (case portTargets parse ip ports of
             Inl e \<Rightarrow> Inl e
           | Inr ts \<Rightarrow>
               if fam = 4 then Inr ([AddressLabel \<mapsto> ToAddr ip @ '':'' @ fmtInt p] # ts)
               else Inr ([AddressLabel \<mapsto> ''['' @ ToAddr ip @ '']:'' @ fmtInt p] # ts)))"

fun serviceTargets :: "netip \<Rightarrow> IP list \<Rightarrow> int list \<Rightarrow> error + LabelSet list" where
  "serviceTargets parse [] ports = Inr []"
| "serviceTargets parse (ip # ips) ports =
     (case portTargets parse ip ports of
        Inl e \<Rightarrow> Inl e
      | Inr ts \<Rightarrow>
          (case serviceTargets parse ips ports of
             Inl e \<Rightarrow> Inl e
           | Inr ts' \<Rightarrow> Inr (ts @ ts')))"

definition serviceItem :: "netip \<Rightarrow> Group \<Rightarrow> Service \<Rightarrow> loopst \<Rightarrow> error + loopst" where
  "serviceItem parse grp serv st =
     (if VM serv \<noteq> None \<and> \<not> IncludeVMs (Flags grp) then Inr st
      else
        (case (if VM serv \<noteq> None then VM serv else Service.Device serv) of
           None \<Rightarrow> Inl Panic
         | Some dev \<Rightarrow>
             if Device.Status dev \<noteq> StatusDeviceActive
             then Inr (skip grp dev TargetSkippedBadStatus st)
             else
               (let labels0 =
                      [''netbox_service'' \<mapsto> Service.Name serv,
                       ''netbox_name'' \<mapsto> Device.Name dev,
                       ''netbox_rack'' \<mapsto> Rack dev,
                       ''netbox_site'' \<mapsto> Site dev,
                       ''netbox_tenant'' \<mapsto> Tenant dev,
                       ''netbox_role'' \<mapsto> Role dev,
                       ''netbox_platform'' \<mapsto> Platform dev,
                       ''netbox_serial_number'' \<mapsto> SerialNumber dev,
                       ''netbox_asset_tag'' \<mapsto> AssetTag dev]
                in case generateCustomFieldLabels (Device.CustomFields dev) of
                     Inl e \<Rightarrow> Inl e
                   | Inr (cfLabels, Some err) \<Rightarrow> Inr (skip grp dev TargetSkippedBadCustomField st)
                   | Inr (cfLabels, None) \<Rightarrow>
                       (case generateCustomFieldLabels (Service.CustomFields serv) of
                          Inl e \<Rightarrow> Inl e
                        | Inr (cfLabels', Some err) \<Rightarrow>
                            Inr (skip grp dev TargetSkippedBadCustomField st)
                        | Inr (cfLabels', None) \<Rightarrow>
                            (let dyn = (if IsVirtual dev then [''is_vm'' \<mapsto> ''true'']
                                        else dynLabels st);
                                 target = \<lparr>Targets = [],
                                           Labels = Merge (Merge (Merge (Merge labels0 cfLabels)
                                                      cfLabels') dyn) (Group.Labels grp),
                                           Source = ''netbox_sd''\<rparr>;
                                 st1 = st\<lparr>dynLabels := dyn\<rparr>
                             in if \<not> FiltersMatch grp target
                                then Inr (skip grp dev TargetSkippedNotMatchingFilters st1)
                                else
                                  (case selectAddr parse (IPAddresses serv) grp of
                                     Inl e \<Rightarrow> Inl e
                                   | Inr selectedIPs \<Rightarrow>
                                       if length selectedIPs = 0
                                       then Inr (skip grp dev TargetSkippedNoValidIP st1)
                                       else
                                         (case serviceTargets parse selectedIPs
                                                 (servicePorts grp serv) of
                                            Inl e \<Rightarrow> Inl e
                                          | Inr ts \<Rightarrow>
                                              Inr ((skip grp dev TargetActive st1)
                                                    \<lparr>data := data st1
                                                        @ [target\<lparr>Targets := ts\<rparr>]\<rparr>))))))))"

definition getTargetsByService ::
  "netip \<Rightarrow> API \<Rightarrow> Group \<Rightarrow> metrics \<Rightarrow> error + TargetGroup list \<times> metrics" where
  "getTargetsByService parse api grp m =
     (case GetServicesByName api (Group.Match grp) of
        Inl err \<Rightarrow> Inl err
      | Inr servList \<Rightarrow>
          (case rangeLoop (serviceItem parse grp) servList
                  \<lparr>dynLabels = Map.empty, data = [], met = m\<rparr> of
             Inl e \<Rightarrow> Inl e
           | Inr st \<Rightarrow> Inr (data st, met st)))"

subsection \<open>getTargetsByDeviceTag\<close>

definition deviceItem :: "netip \<Rightarrow> Group \<Rightarrow> Device \<Rightarrow> loopst \<Rightarrow> error + loopst" where
  "deviceItem parse grp dev st =
     (if Device.Status dev \<noteq> StatusDeviceActive
      then Inr (skip grp dev TargetSkippedBadStatus st)
      else
        (let labels0 =
               [''netbox_name'' \<mapsto> Device.Name dev,
                ''netbox_rack'' \<mapsto> Rack dev,
                ''netbox_site'' \<mapsto> Site dev,
                ''netbox_tenant'' \<mapsto> Tenant dev,
                ''netbox_role'' \<mapsto> Role dev,
                ''netbox_platform'' \<mapsto> Platform dev,
                ''netbox_serial_number'' \<mapsto> SerialNumber dev,
                ''netbox_asset_tag'' \<mapsto> AssetTag dev]
         in case generateCustomFieldLabels (Device.CustomFields dev) of
              Inl e \<Rightarrow> Inl e
            | Inr (cfLabels, Some err) \<Rightarrow> Inr (skip grp dev TargetSkippedBadCustomField st)
            | Inr (cfLabels, None) \<Rightarrow>
                (let dyn = (if IsVirtual dev then [''is_vm'' \<mapsto> ''true''] else dynLabels st);
                     target = \<lparr>Targets = [],
                               Labels = Merge (Merge (Merge labels0 cfLabels) dyn)
                                          (Group.Labels grp),
                               Source = ''netbox_sd''\<rparr>;
                     st1 = st\<lparr>dynLabels := dyn\<rparr>
                 in if \<not> FiltersMatch grp target
                    then Inr (skip grp dev TargetSkippedNotMatchingFilters st1)
                    else
                      (case selectAddr parse [PrimaryIP6 dev, PrimaryIP4 dev] grp of
                         Inl e \<Rightarrow> Inl e
                       | Inr selectedIPs \<Rightarrow>
                           if length selectedIPs = 0
                           then Inr (skip grp dev TargetSkippedNoValidIP st1)
                           else
                             (case convertToTargets parse selectedIPs (Port grp) of
                                Inl e \<Rightarrow> Inl e
                              | Inr ts \<Rightarrow>
                                  (let st2 = (skip grp dev TargetActive st1)
                                               \<lparr>data := data st1 @ [target\<lparr>Targets := ts\<rparr>]\<rparr>
                                   in Inr (st2\<lparr>met := (met st2)\<lparr>promIPSkipped :=
                                        promIPSkipped (met st2)
                                        @ [(File grp, Device.Name dev,
                                            int (length [PrimaryIP6 dev, PrimaryIP4 dev])
                                            - int (length selectedIPs))]\<rparr>\<rparr>)))))))"

definition getTargetsByDeviceTag ::
  "netip \<Rightarrow> API \<Rightarrow> Group \<Rightarrow> metrics \<Rightarrow> error + TargetGroup list \<times> metrics" where
  "getTargetsByDeviceTag parse api grp m =
     (case GetDevicesByTag api (Group.Match grp) of
        Inl err \<Rightarrow> Inl err
      | Inr devList \<Rightarrow>
          (case (if IncludeVMs (Flags grp)
                 then (case GetVMsByTag api (Group.Match grp) of
                         Inl err \<Rightarrow> Inl err
                       | Inr vmList \<Rightarrow> Inr (devList @ vmList))
                 else Inr devList) of
             Inl err \<Rightarrow> Inl err
           | Inr devList' \<Rightarrow>
               (case rangeLoop (deviceItem parse grp) devList'
                       \<lparr>dynLabels = Map.empty, data = [], met = m\<rparr> of
                  Inl e \<Rightarrow> Inl e
                | Inr st \<Rightarrow> Inr (data st, met st))))"

subsection \<open>getTargetsByInterfaceTag\<close>

definition interfaceItem :: "netip \<Rightarrow> API \<Rightarrow> Group \<Rightarrow> Interface \<Rightarrow> loopst \<Rightarrow> error + loopst" where
  "interfaceItem parse api grp iface st =
     (let dev = Interface.Device iface in
      if Device.Status dev \<noteq> StatusDeviceActive \<or> \<not> Enabled iface
      then Inr (skip grp dev TargetSkippedBadStatus st)
      else
        (let labels0 =
               [''netbox_name'' \<mapsto> Device.Name dev,
                ''netbox_rack'' \<mapsto> Rack dev,
                ''netbox_site'' \<mapsto> Site dev,
                ''netbox_tenant'' \<mapsto> Tenant dev,
                ''netbox_role'' \<mapsto> Role dev,
                ''netbox_platform'' \<mapsto> Platform dev,
                ''netbox_serial_number'' \<mapsto> SerialNumber dev,
                ''netbox_asset_tag'' \<mapsto> AssetTag dev]
         in case generateCustomFieldLabels (Device.CustomFields dev) of
              Inl e \<Rightarrow> Inl e
            | Inr (cfLabels, Some err) \<Rightarrow> Inr (skip grp dev TargetSkippedBadCustomField st)
            | Inr (cfLabels, None) \<Rightarrow>
                (case generateCustomFieldLabels (Interface.CustomFields iface) of
                   Inl e \<Rightarrow> Inl e
                 | Inr (cfLabels', Some err) \<Rightarrow>
                     Inr (skip grp dev TargetSkippedBadCustomField st)
                 | Inr (cfLabels', None) \<Rightarrow>
                     (let dyn = (if IsVirtual dev then [''is_vm'' \<mapsto> ''true'']
                                 else dynLabels st);
                          target = \<lparr>Targets = [],
                                    Labels = Merge (Merge (Merge (Merge labels0 cfLabels)
                                               cfLabels') dyn) (Group.Labels grp),
                                    Source = ''netbox_sd''\<rparr>;
                          st1 = st\<lparr>dynLabels := dyn\<rparr>
                      in if \<not> FiltersMatch grp target
                         then Inr st1
                         else
                           (case (if IsVirtual dev
                                  then GetVirtualInterfaceIPs api (ID iface)
                                  else GetInterfaceIPs api (ID iface)) of
                              Inl err \<Rightarrow> Inr (skip grp dev TargetSkippedNoValidIP st1)
                            | Inr addrs \<Rightarrow>
                                (case selectAddr parse addrs grp of
                                   Inl e \<Rightarrow> Inl e
                                 | Inr selectedIPs \<Rightarrow>
                                     if length selectedIPs = 0
                                     then Inr (skip grp dev TargetSkippedNoValidIP st1)
                                     else
                                       (case convertToTargets parse selectedIPs (Port grp) of
                                          Inl e \<Rightarrow> Inl e
                                        | Inr ts \<Rightarrow>
                                            (let st2 = (skip grp dev TargetActive st1)
                                                   \<lparr>data := data st1
                                                      @ [target\<lparr>Targets := ts\<rparr>]\<rparr>
                                             in Inr (st2\<lparr>met := (met st2)\<lparr>promIPSkipped :=
                                                  promIPSkipped (met st2)
                                                  @ [(File grp, Device.Name dev,
                                                      int (length addrs)
                                                      - int (length selectedIPs))]\<rparr>\<rparr>)))))))))"

definition getTargetsByInterfaceTag ::
  "netip \<Rightarrow> API \<Rightarrow> Group \<Rightarrow> metrics \<Rightarrow> error + TargetGroup list \<times> metrics" where
  "getTargetsByInterfaceTag parse api grp m =
     (case GetInterfacesByTag api (Group.Match grp) of
        Inl err \<Rightarrow> Inl err
      | Inr ifList \<Rightarrow>
          (case (if IncludeVMs (Flags grp)
                 then (case GetVirtualInterfacesByTag api (Group.Match grp) of
                         Inl err \<Rightarrow> Inl err
                       | Inr vmList \<Rightarrow> Inr (ifList @ vmList))
                 else Inr ifList) of
             Inl err \<Rightarrow> Inl err
           | Inr ifList' \<Rightarrow>
               (case rangeLoop (interfaceItem parse api grp) ifList'
                       \<lparr>dynLabels = Map.empty, data = [], met = m\<rparr> of
                  Inl e \<Rightarrow> Inl e
                | Inr st \<Rightarrow> Inr (data st, met st))))"


text \<open>
  Vocabulary for the statements about the loops: two loop states with the same result
  list and the same \<open>dynLabels\<close>, and the endpoint label set of an address and a port.
\<close>

definition sameData :: "loopst \<Rightarrow> loopst \<Rightarrow> bool" where
  "sameData s t = (data s = data t \<and> dynLabels s = dynLabels t)"


definition endpoint :: "netip \<Rightarrow> IP \<Rightarrow> int \<Rightarrow> LabelSet" where
  "endpoint parse ip p =
     [AddressLabel \<mapsto>
        (if Family parse ip = Inr 4 then ToAddr ip @ '':'' @ fmtInt p
         else ''['' @ ToAddr ip @ '']:'' @ fmtInt p)]"

text \<open>The observations of a filter mismatch among the recorded target states.\<close>

abbreviation notMatching :: "(string \<times> Device \<times> TargetState) list \<Rightarrow> (string \<times> Device \<times> TargetState) list" where
  "notMatching obs \<equiv> filter (\<lambda>ob. snd (snd ob) = TargetSkippedNotMatchingFilters) obs"


section \<open>The group worker\<close>

text \<open>
  The variables of \<open>worker\<close> that live across iterations of its endless loop, together
  with the two things outside the process it acts on: the file system (the content of
  every file, by path) and the metrics.
\<close>

record wstate =
  files :: "string \<rightharpoonup> string"
  wmet :: metrics
  lastRun :: int
  failed :: bool
  targets :: "TargetGroup list"

text \<open>
  The environment of a cycle: \<open>yaml.Marshal\<close>, \<open>os.WriteFile\<close> (which returns the file
  system it leaves behind and its error, \<open>None\<close> for nil), and the readings of
  \<open>time.Now()\<close> in the order the cycle takes them.
\<close>

record env =
  Marshal :: "TargetGroup list \<Rightarrow> error + string"
  WriteFile :: "(string \<rightharpoonup> string) \<Rightarrow> string \<Rightarrow> string \<Rightarrow> (string \<rightharpoonup> string) \<times> error option"
  runStart :: int
  runEnd :: int
  durationEnd :: int
  unixNow :: int

text \<open>The \<open>switch group.Type\<close>: \<open>None\<close> when no case applies.\<close>

definition assemble ::
  "netip \<Rightarrow> API \<Rightarrow> Group \<Rightarrow> metrics \<Rightarrow> (error + TargetGroup list \<times> metrics) option" where
  "assemble parse api grp m =
     (if Type grp = GroupTypeService then Some (getTargetsByService parse api grp m)
      else if Type grp = GroupTypeDeviceTag then Some (getTargetsByDeviceTag parse api grp m)
      else if Type grp = GroupTypeInterfaceTag
        then Some (getTargetsByInterfaceTag parse api grp m)
      else None)"

text \<open>The end of a cycle, from \<open>lastRun = time.Now()\<close> on.\<close>

definition finishCycle :: "env \<Rightarrow> Group \<Rightarrow> wstate \<Rightarrow> wstate" where
  "finishCycle e grp st =
     st\<lparr>lastRun := runEnd e,
        wmet := (wmet st)
          \<lparr>promUpdateDuration := (promUpdateDuration (wmet st))(File grp \<mapsto> durationEnd e - runStart e),
           promUpdateTime := (promUpdateTime (wmet st))(File grp \<mapsto> unixNow e)\<rparr>\<rparr>"

text \<open>The part \<open>if !failed { ... } else { ... }\<close>.\<close>

definition commitOrDiscard :: "env \<Rightarrow> Group \<Rightarrow> wstate \<Rightarrow> error + wstate" where
  "commitOrDiscard e grp st =
     (if \<not> failed st then
        (case Marshal e (targets st) of
           Inl err \<Rightarrow> Inl Panic
         | Inr bytes \<Rightarrow>
             (case WriteFile e (files st) (File grp) bytes of
                (fs, Some err) \<Rightarrow> Inr (st\<lparr>files := fs, failed := True\<rparr>)
              | (fs, None) \<Rightarrow>
                  Inr (st\<lparr>files := fs,
                          wmet := (wmet st)\<lparr>promTargetCount :=
                            (promTargetCount (wmet st))(File grp \<mapsto> length (targets st))\<rparr>\<rparr>)))
      else
        Inr (st\<lparr>wmet := (wmet st)\<lparr>promUpdateError :=
               (promUpdateError (wmet st))(File grp := promUpdateError (wmet st) (File grp) + 1)\<rparr>\<rparr>))"

text \<open>
  One scan: the body of \<open>if time.Since(lastRun) >= group.ScanInterval\<close>. An assembler
  that returns an error returns the nil slice with it.
\<close>

definition workerCycle :: "netip \<Rightarrow> API \<Rightarrow> env \<Rightarrow> Group \<Rightarrow> wstate \<Rightarrow> error + wstate" where
  "workerCycle parse api e grp st =
     (let st0 = st\<lparr>failed := False\<rparr> in
      case (case assemble parse api grp (wmet st0) of
              None \<Rightarrow> Inr st0
            | Some (Inl Panic) \<Rightarrow> Inl Panic
            | Some (Inl err) \<Rightarrow> Inr (st0\<lparr>targets := [], failed := True\<rparr>)
            | Some (Inr (ts, m)) \<Rightarrow> Inr (st0\<lparr>targets := ts, wmet := m\<rparr>)) of
        Inl err \<Rightarrow> Inl err
      | Inr st1 \<Rightarrow>
          (case commitOrDiscard e grp st1 of
             Inl err \<Rightarrow> Inl err
           | Inr st2 \<Rightarrow> Inr (finishCycle e grp st2)))"

text \<open>
  One iteration of the endless loop at clock reading \<open>now\<close>; the sleep of
  \<open>WorkerSleepTimeMS\<close> follows it.
\<close>

definition workerTick :: "netip \<Rightarrow> API \<Rightarrow> env \<Rightarrow> Group \<Rightarrow> int \<Rightarrow> wstate \<Rightarrow> error + wstate" where
  "workerTick parse api e grp now st =
     (if now - lastRun st \<ge> ScanInterval grp then workerCycle parse api e grp st else Inr st)"

section \<open>The methods of the inventory types left open\<close>

text \<open>
  \<open>selectAddr\<close> and \<open>generateCustomFieldLabels\<close> call methods of the types of the
  inventory client: \<open>addr.Family()\<close>, \<open>val.AsString()\<close>, \<open>val.AsFloat()\<close> and
  \<open>val.AsBool()\<close>. The definitions of this section are the same functions with these
  methods as parameters: what the caller does with every answer a method of that
  signature can give. The functions of the program are the instances at the methods of
  \<open>pkg/netbox\<close>.
\<close>

subsection \<open>selectAddr\<close>

fun selectAddr_loopWith :: "(IP \<Rightarrow> error + int) \<Rightarrow> Group \<Rightarrow> IP option list \<Rightarrow> sel \<Rightarrow> error + IP list" where
  "selectAddr_loopWith family grp [] s = Inr (selectAddr_finish s)"
| "selectAddr_loopWith family grp (None # addrs) s = selectAddr_loopWith family grp addrs s"
| "selectAddr_loopWith family grp (Some addr # addrs) s =
     (if IP.Status addr \<noteq> StatusIPActive \<and> IP.Status addr \<noteq> StatusIPDHCP
         \<and> IP.Status addr \<noteq> StatusIPSLAAC
      then selectAddr_loopWith family grp addrs s
      else (case family addr of
              Inl e \<Rightarrow> Inl e
            | Inr fam \<Rightarrow>
                if fam = 6 then selectAddr_loopWith family grp addrs (case6 grp addr s)
                else if fam = 4 then selectAddr_loopWith family grp addrs (case4 grp addr s)
                else Inr []))"

definition selectAddrWith :: "(IP \<Rightarrow> error + int) \<Rightarrow> IP option list \<Rightarrow> Group \<Rightarrow> error + IP list" where
  "selectAddrWith family addrs grp =
     selectAddr_loopWith family grp addrs \<lparr>firstInet6 = None, firstInet = None, result = []\<rparr>"

subsection \<open>generateCustomFieldLabels and its callers\<close>

definition cfCallbackWith ::
  "(CustomField \<Rightarrow> error + string) \<Rightarrow> (CustomField \<Rightarrow> error + int)
   \<Rightarrow> (CustomField \<Rightarrow> error + bool) \<Rightarrow> string \<Rightarrow> CustomField \<Rightarrow> LabelSet \<times> error option \<Rightarrow> error + LabelSet \<times> error option" where
  "cfCallbackWith asString asFloat asBool key val st =
     (let allLabels = fst st; gotError = snd st in
      if Datatype val = CustomFieldText then
        (case asString val of
           Inl Panic \<Rightarrow> Inl Panic
         | Inl err \<Rightarrow> Inr (Merge allLabels [''netbox_'' @ key \<mapsto> []], Some err)
         | Inr tmpStr \<Rightarrow> Inr (Merge allLabels [''netbox_'' @ key \<mapsto> tmpStr], gotError))
      else if Datatype val = CustomFieldNumber then
        (case asFloat val of
           Inl Panic \<Rightarrow> Inl Panic
         | Inl err \<Rightarrow> Inr (Merge allLabels [''netbox_'' @ key \<mapsto> fmtInt 0], Some err)
         | Inr tmpNum \<Rightarrow> Inr (Merge allLabels [''netbox_'' @ key \<mapsto> fmtInt tmpNum], gotError))
      else if Datatype val = CustomFieldBool then
        (case asBool val of
           Inl Panic \<Rightarrow> Inl Panic
         | Inl err \<Rightarrow> Inr (Merge allLabels [''netbox_'' @ key \<mapsto> fmtBool False], Some err)
         | Inr tmpBool \<Rightarrow> Inr (Merge allLabels [''netbox_'' @ key \<mapsto> fmtBool tmpBool], gotError))
      else Inr (Merge allLabels Map.empty, gotError))"

fun GetAllEntriesWith ::
  "(CustomField \<Rightarrow> error + string) \<Rightarrow> (CustomField \<Rightarrow> error + int)
   \<Rightarrow> (CustomField \<Rightarrow> error + bool) \<Rightarrow> CustomFieldMap \<Rightarrow> LabelSet \<times> error option \<Rightarrow> error + LabelSet \<times> error option" where
  "GetAllEntriesWith asString asFloat asBool [] st = Inr st"
| "GetAllEntriesWith asString asFloat asBool ((key, val) # cfm) st =
     (case cfCallbackWith asString asFloat asBool key val st of
        Inl e \<Rightarrow> Inl e
      | Inr st' \<Rightarrow> GetAllEntriesWith asString asFloat asBool cfm st')"

definition generateCustomFieldLabelsWith ::
  "(CustomField \<Rightarrow> error + string) \<Rightarrow> (CustomField \<Rightarrow> error + int)
   \<Rightarrow> (CustomField \<Rightarrow> error + bool) \<Rightarrow> CustomFieldMap \<Rightarrow> error + LabelSet \<times> error option" where
  "generateCustomFieldLabelsWith asString asFloat asBool cfm =
     GetAllEntriesWith asString asFloat asBool cfm (Map.empty, None)"


text \<open>The three loop bodies, with the label generator they call as a parameter.\<close>

definition serviceItemWith ::
  "(CustomFieldMap \<Rightarrow> error + LabelSet \<times> error option) \<Rightarrow> netip \<Rightarrow> Group \<Rightarrow> Service \<Rightarrow> loopst \<Rightarrow> error + loopst" where
  "serviceItemWith gen parse grp serv st =
     (if VM serv \<noteq> None \<and> \<not> IncludeVMs (Flags grp) then Inr st
      else
        (case (if VM serv \<noteq> None then VM serv else Service.Device serv) of
           None \<Rightarrow> Inl Panic
         | Some dev \<Rightarrow>
             if Device.Status dev \<noteq> StatusDeviceActive
             then Inr (skip grp dev TargetSkippedBadStatus st)
             else
               (let labels0 =
                      [''netbox_service'' \<mapsto> Service.Name serv,
                       ''netbox_name'' \<mapsto> Device.Name dev,
                       ''netbox_rack'' \<mapsto> Rack dev,
                       ''netbox_site'' \<mapsto> Site dev,
                       ''netbox_tenant'' \<mapsto> Tenant dev,
                       ''netbox_role'' \<mapsto> Role dev,
                       ''netbox_platform'' \<mapsto> Platform dev,
                       ''netbox_serial_number'' \<mapsto> SerialNumber dev,
                       ''netbox_asset_tag'' \<mapsto> AssetTag dev]
                in case gen (Device.CustomFields dev) of
                     Inl e \<Rightarrow> Inl e
                   | Inr (cfLabels, Some err) \<Rightarrow> Inr (skip grp dev TargetSkippedBadCustomField st)
                   | Inr (cfLabels, None) \<Rightarrow>
                       (case gen (Service.CustomFields serv) of
                          Inl e \<Rightarrow> Inl e
                        | Inr (cfLabels', Some err) \<Rightarrow>
                            Inr (skip grp dev TargetSkippedBadCustomField st)
                        | Inr (cfLabels', None) \<Rightarrow>
                            (let dyn = (if IsVirtual dev then [''is_vm'' \<mapsto> ''true'']
                                        else dynLabels st);
                                 target = \<lparr>Targets = [],
                                           Labels = Merge (Merge (Merge (Merge labels0 cfLabels)
                                                      cfLabels') dyn) (Group.Labels grp),
                                           Source = ''netbox_sd''\<rparr>;
                                 st1 = st\<lparr>dynLabels := dyn\<rparr>
                             in if \<not> FiltersMatch grp target
                                then Inr (skip grp dev TargetSkippedNotMatchingFilters st1)
                                else
                                  (case selectAddr parse (IPAddresses serv) grp of
                                     Inl e \<Rightarrow> Inl e
                                   | Inr selectedIPs \<Rightarrow>
                                       if length selectedIPs = 0
                                       then Inr (skip grp dev TargetSkippedNoValidIP st1)
                                       else
                                         (case serviceTargets parse selectedIPs
                                                 (servicePorts grp serv) of
                                            Inl e \<Rightarrow> Inl e
                                          | Inr ts \<Rightarrow>
                                              Inr ((skip grp dev TargetActive st1)
                                                    \<lparr>data := data st1
                                                        @ [target\<lparr>Targets := ts\<rparr>]\<rparr>))))))))"

definition deviceItemWith ::
  "(CustomFieldMap \<Rightarrow> error + LabelSet \<times> error option) \<Rightarrow> netip \<Rightarrow> Group \<Rightarrow> Device \<Rightarrow> loopst \<Rightarrow> error + loopst" where
  "deviceItemWith gen parse grp dev st =
     (if Device.Status dev \<noteq> StatusDeviceActive
      then Inr (skip grp dev TargetSkippedBadStatus st)
      else
        (let labels0 =
               [''netbox_name'' \<mapsto> Device.Name dev,
                ''netbox_rack'' \<mapsto> Rack dev,
                ''netbox_site'' \<mapsto> Site dev,
                ''netbox_tenant'' \<mapsto> Tenant dev,
                ''netbox_role'' \<mapsto> Role dev,
                ''netbox_platform'' \<mapsto> Platform dev,
                ''netbox_serial_number'' \<mapsto> SerialNumber dev,
                ''netbox_asset_tag'' \<mapsto> AssetTag dev]
         in case gen (Device.CustomFields dev) of
              Inl e \<Rightarrow> Inl e
            | Inr (cfLabels, Some err) \<Rightarrow> Inr (skip grp dev TargetSkippedBadCustomField st)
            | Inr (cfLabels, None) \<Rightarrow>
                (let dyn = (if IsVirtual dev then [''is_vm'' \<mapsto> ''true''] else dynLabels st);
                     target = \<lparr>Targets = [],
                               Labels = Merge (Merge (Merge labels0 cfLabels) dyn)
                                          (Group.Labels grp),
                               Source = ''netbox_sd''\<rparr>;
                     st1 = st\<lparr>dynLabels := dyn\<rparr>
                 in if \<not> FiltersMatch grp target
                    then Inr (skip grp dev TargetSkippedNotMatchingFilters st1)
                    else
                      (case selectAddr parse [PrimaryIP6 dev, PrimaryIP4 dev] grp of
                         Inl e \<Rightarrow> Inl e
                       | Inr selectedIPs \<Rightarrow>
                           if length selectedIPs = 0
                           then Inr (skip grp dev TargetSkippedNoValidIP st1)
                           else
                             (case convertToTargets parse selectedIPs (Port grp) of
                                Inl e \<Rightarrow> Inl e
                              | Inr ts \<Rightarrow>
                                  (let st2 = (skip grp dev TargetActive st1)
                                               \<lparr>data := data st1 @ [target\<lparr>Targets := ts\<rparr>]\<rparr>
                                   in Inr (st2\<lparr>met := (met st2)\<lparr>promIPSkipped :=
                                        promIPSkipped (met st2)
                                        @ [(File grp, Device.Name dev,
                                            int (length [PrimaryIP6 dev, PrimaryIP4 dev])
                                            - int (length selectedIPs))]\<rparr>\<rparr>)))))))"

definition interfaceItemWith ::
  "(CustomFieldMap \<Rightarrow> error + LabelSet \<times> error option) \<Rightarrow> netip \<Rightarrow> API \<Rightarrow> Group \<Rightarrow> Interface \<Rightarrow> loopst \<Rightarrow> error + loopst" where
  "interfaceItemWith gen parse api grp iface st =
     (let dev = Interface.Device iface in
      if Device.Status dev \<noteq> StatusDeviceActive \<or> \<not> Enabled iface
      then Inr (skip grp dev TargetSkippedBadStatus st)
      else
        (let labels0 =
               [''netbox_name'' \<mapsto> Device.Name dev,
                ''netbox_rack'' \<mapsto> Rack dev,
                ''netbox_site'' \<mapsto> Site dev,
                ''netbox_tenant'' \<mapsto> Tenant dev,
                ''netbox_role'' \<mapsto> Role dev,
                ''netbox_platform'' \<mapsto> Platform dev,
                ''netbox_serial_number'' \<mapsto> SerialNumber dev,
                ''netbox_asset_tag'' \<mapsto> AssetTag dev]
         in case gen (Device.CustomFields dev) of
              Inl e \<Rightarrow> Inl e
            | Inr (cfLabels, Some err) \<Rightarrow> Inr (skip grp dev TargetSkippedBadCustomField st)
            | Inr (cfLabels, None) \<Rightarrow>
                (case gen (Interface.CustomFields iface) of
                   Inl e \<Rightarrow> Inl e
                 | Inr (cfLabels', Some err) \<Rightarrow>
                     Inr (skip grp dev TargetSkippedBadCustomField st)
                 | Inr (cfLabels', None) \<Rightarrow>
                     (let dyn = (if IsVirtual dev then [''is_vm'' \<mapsto> ''true'']
                                 else dynLabels st);
                          target = \<lparr>Targets = [],
                                    Labels = Merge (Merge (Merge (Merge labels0 cfLabels)
                                               cfLabels') dyn) (Group.Labels grp),
                                    Source = ''netbox_sd''\<rparr>;
                          st1 = st\<lparr>dynLabels := dyn\<rparr>
                      in if \<not> FiltersMatch grp target
                         then Inr st1
                         else
                           (case (if IsVirtual dev
                                  then GetVirtualInterfaceIPs api (ID iface)
                                  else GetInterfaceIPs api (ID iface)) of
                              Inl err \<Rightarrow> Inr (skip grp dev TargetSkippedNoValidIP st1)
                            | Inr addrs \<Rightarrow>
                                (case selectAddr parse addrs grp of
                                   Inl e \<Rightarrow> Inl e
                                 | Inr selectedIPs \<Rightarrow>
                                     if length selectedIPs = 0
                                     then Inr (skip grp dev TargetSkippedNoValidIP st1)
                                     else
                                       (case convertToTargets parse selectedIPs (Port grp) of
                                          Inl e \<Rightarrow> Inl e
                                        | Inr ts \<Rightarrow>
                                            (let st2 = (skip grp dev TargetActive st1)
                                                   \<lparr>data := data st1
                                                      @ [target\<lparr>Targets := ts\<rparr>]\<rparr>
                                             in Inr (st2\<lparr>met := (met st2)\<lparr>promIPSkipped :=
                                                  promIPSkipped (met st2)
                                                  @ [(File grp, Device.Name dev,
                                                      int (length addrs)
                                                      - int (length selectedIPs))]\<rparr>\<rparr>)))))))))"

section \<open>Example inputs\<close>

definition exGroupOf :: "string \<Rightarrow> int option \<Rightarrow> Filter list \<Rightarrow> string \<Rightarrow> bool \<Rightarrow> Group" where
  "exGroupOf ty port fs fam allAddrs =
     \<lparr>File = ''targets.yml'', Type = ty, Match = ''node_exporter'',
      ScanInterval = 10, Labels = Map.empty, Port = port,
      Flags = \<lparr>IncludeVMs = True, InetFamily = fam, AllAddresses = allAddrs\<rparr>,
      Filters = fs\<rparr>"

definition exGroup :: "string \<Rightarrow> bool \<Rightarrow> Group" where
  "exGroup fam allAddrs = exGroupOf GroupTypeService None [] fam allAddrs"

definition exFilters :: "Filter list" where
  "exFilters =
     [\<lparr>Label = ''netbox_site'', Match = ''fra[0-9]+'', Negate = False,
       regex = (\<lambda>v. take 3 v = ''fra'' \<and> drop 3 v \<noteq> [] \<and> list_all isDigit (drop 3 v))\<rparr>,
      \<lparr>Label = ''netbox_role'', Match = ''spare'', Negate = True,
       regex = (\<lambda>v. v = ''spare'')\<rparr>]"

definition exDevice :: "string \<Rightarrow> string \<Rightarrow> Device" where
  "exDevice name site =
     \<lparr>Device.Name = name,
      PrimaryIP4 = Some \<lparr>Address = ''10.0.0.1/24'', IP.Status = StatusIPActive\<rparr>,
      PrimaryIP6 = None, Device.CustomFields = [], Rack = ''r12'', Site = site, Role = ''leaf'',
      Tenant = ''noc'', Platform = ''junos'', SerialNumber = ''SN-1'', AssetTag = ''A-1'',
      Device.Status = StatusDeviceActive, isVirtual = False\<rparr>"

definition exInterface :: "bool \<Rightarrow> string \<Rightarrow> Interface" where
  "exInterface enabled site =
     \<lparr>ID = 7, Interface.Name = ''ge-0/0/0'', Enabled = enabled,
      Interface.CustomFields = [], Interface.Device = exDevice ''sw1'' site\<rparr>"

definition exService :: "int list \<Rightarrow> IP option list \<Rightarrow> Service" where
  "exService ports addrs =
     \<lparr>Name = ''node_exporter'', Device = Some (exDevice ''sw1'' ''fra1''), VM = None,
      Ports = ports, IPAddresses = addrs, CustomFields = []\<rparr>"

text \<open>An inventory that answers every query with the given result lists.\<close>

definition exAPI :: "Service list \<Rightarrow> Device list \<Rightarrow> Interface list \<Rightarrow> API" where
  "exAPI servs devs ifaces =
     \<lparr>GetServicesByName = (\<lambda>name. Inr servs),
      GetDevicesByTag = (\<lambda>tag. Inr devs),
      GetVMsByTag = (\<lambda>tag. Inr []),
      GetInterfacesByTag = (\<lambda>tag. Inr ifaces),
      GetVirtualInterfacesByTag = (\<lambda>tag. Inr []),
      GetInterfaceIPs = (\<lambda>i. Inr [Some \<lparr>Address = ''10.0.0.7/24'', IP.Status = StatusIPActive\<rparr>]),
      GetVirtualInterfaceIPs = (\<lambda>i. Inr [])\<rparr>"

text \<open>An inventory that cannot be reached.\<close>

definition downAPI :: API where
  "downAPI =
     \<lparr>GetServicesByName = (\<lambda>name. Inl (ErrQuery ''unexpected status code'')),
      GetDevicesByTag = (\<lambda>tag. Inl (ErrQuery ''unexpected status code'')),
      GetVMsByTag = (\<lambda>tag. Inl (ErrQuery ''unexpected status code'')),
      GetInterfacesByTag = (\<lambda>tag. Inl (ErrQuery ''unexpected status code'')),
      GetVirtualInterfacesByTag = (\<lambda>tag. Inl (ErrQuery ''unexpected status code'')),
      GetInterfaceIPs = (\<lambda>i. Inl (ErrQuery ''unexpected status code'')),
      GetVirtualInterfaceIPs = (\<lambda>i. Inl (ErrQuery ''unexpected status code''))\<rparr>"

definition exMetrics :: metrics where
  "exMetrics =
     \<lparr>promTargetState = [], promIPSkipped = [], promUpdateError = (\<lambda>g. 0),
      promTargetCount = Map.empty, promUpdateDuration = Map.empty,
      promUpdateTime = Map.empty\<rparr>"

definition exState :: wstate where
  "exState =
     \<lparr>files = [''targets.yml'' \<mapsto> ''- targets: []''], wmet = exMetrics, lastRun = 0,
      failed = False, targets = []\<rparr>"

text \<open>
  An environment whose serialiser writes one line per target group and whose
  \<open>os.WriteFile\<close> either replaces the file or fails and leaves the file system alone.
\<close>

definition exEnv :: "bool \<Rightarrow> env" where
  "exEnv writable =
     \<lparr>Marshal = (\<lambda>ts. Inr (concat (map (\<lambda>t. ''- targets'') ts))),
      WriteFile = (\<lambda>fs path bytes.
         if writable then (fs(path \<mapsto> bytes), None)
         else (fs, Some (ErrWrite ''permission denied''))),
      runStart = 100, runEnd = 103, durationEnd = 104, unixNow = 1700000000\<rparr>"

text \<open>A custom field converts when its declared type is the type of its value.\<close>

definition converts :: "CustomField \<Rightarrow> bool" where
  "converts cf =
     (case Value cf of
        VString v \<Rightarrow> Datatype cf = CustomFieldText
      | VNumber v \<Rightarrow> Datatype cf = CustomFieldNumber
      | VBool v \<Rightarrow> Datatype cf = CustomFieldBool
      | VOther \<Rightarrow> False)"

definition exLoop :: loopst where
  "exLoop = \<lparr>dynLabels = Map.empty, data = [], met = exMetrics\<rparr>"

text \<open>The endpoint strings of every record of a result list.\<close>

definition addresses :: "TargetGroup list \<Rightarrow> string option list list" where
  "addresses ts = map (\<lambda>t. map (\<lambda>l. l AddressLabel) (Targets t)) ts"

text \<open>
  The filters of \<open>TestFiltersMatch\<close>. An unanchored pattern matches when the value has a
  matching substring: \<open>bar\<close>, \<open>(foo|bar)\<close>, \<open>[0-9]+\<close>.
\<close>

fun contains :: "string \<Rightarrow> string \<Rightarrow> bool" where
  "contains sub [] = (sub = [])"
| "contains sub (c # cs) = (take (length sub) (c # cs) = sub \<or> contains sub cs)"

definition testFilters :: "Filter list" where
  "testFilters =
     [\<lparr>Label = ''netbox_foo'', Match = ''bar'', Negate = False, regex = contains ''bar''\<rparr>,
      \<lparr>Label = ''netbox_foo2'', Match = ''(foo|bar)'', Negate = False,
       regex = (\<lambda>v. contains ''foo'' v \<or> contains ''bar'' v)\<rparr>,
      \<lparr>Label = ''netbox_foo3'', Match = ''[0-9]+'', Negate = False, regex = list_ex isDigit\<rparr>,
      \<lparr>Label = ''netbox_foo4'', Match = ''bar'', Negate = True, regex = contains ''bar''\<rparr>]"








section \<open>Properties of selectAddr\<close>


lemma Family_cases: "Family parse a = Inl Panic \<or> Family parse a = Inr 4 \<or> Family parse a = Inr 6"
  by (simp add: Family_def split: option.splits)

lemma Family_Panic_iff: "Family parse a = Inl Panic \<longleftrightarrow> parse (ToAddr a) = None"
  by (simp add: Family_def split: option.splits)

lemma Family_same_literal: "Address a = Address b \<Longrightarrow> Family parse a = Family parse b"
  by (simp add: Family_def ToAddr_def)

lemma loop_Some:
  "selectAddr_loop parse grp (Some a # addrs) s =
     (if \<not> statusOK a then selectAddr_loop parse grp addrs s
      else (case Family parse a of
              Inl e \<Rightarrow> Inl e
            | Inr fam \<Rightarrow>
                if fam = 6 then selectAddr_loop parse grp addrs (case6 grp a s)
                else if fam = 4 then selectAddr_loop parse grp addrs (case4 grp a s)
                else Inr []))"
  by (simp add: statusOK_def)

declare selectAddr_loop.simps(3) [simp del]

lemma set_candidates: "set (candidates addrs) = {a. Some a \<in> set addrs \<and> statusOK a}"
  by (induction addrs rule: candidates.induct) auto

lemma loop_panics:
  "\<exists>a\<in>set (candidates addrs). parse (ToAddr a) = None \<Longrightarrow>
   selectAddr_loop parse grp addrs s = Inl Panic"
proof (induction addrs arbitrary: s rule: candidates.induct)
  case 1
  then show ?case by simp
next
  case (2 addrs)
  then show ?case by simp
next
  case (3 a addrs)
  show ?case
  proof (cases "statusOK a")
    case False
    with 3 show ?thesis by (simp add: loop_Some)
  next
    case ok: True
    show ?thesis
    proof (cases "parse (ToAddr a)")
      case None
      with ok show ?thesis by (simp add: loop_Some Family_def)
    next
      case (Some b)
      with 3 ok have "\<exists>a\<in>set (candidates addrs). parse (ToAddr a) = None" by auto
      with 3 ok have "\<And>s. selectAddr_loop parse grp addrs s = Inl Panic" by simp
      with ok Some show ?thesis by (simp add: loop_Some Family_def)
    qed
  qed
qed

lemma loop_returns:
  "\<forall>a\<in>set (candidates addrs). parse (ToAddr a) \<noteq> None \<Longrightarrow>
   selectAddr_loop parse grp addrs s = Inr (selectAddr_finish (run parse grp (candidates addrs) s))"
proof (induction addrs arbitrary: s rule: candidates.induct)
  case 1
  then show ?case by simp
next
  case (2 addrs)
  then show ?case by simp
next
  case (3 a addrs)
  show ?case
  proof (cases "statusOK a")
    case False
    with 3 show ?thesis by (simp add: loop_Some)
  next
    case ok: True
    with 3 obtain b where b: "parse (ToAddr a) = Some b" by auto
    from 3 ok have "\<And>s. selectAddr_loop parse grp addrs s = Inr (selectAddr_finish (run parse grp (candidates addrs) s))"
      by simp
    with ok b show ?thesis by (simp add: loop_Some Family_def)
  qed
qed

lemma run_firstInet6:
  "firstInet6 (run parse grp cs s) =
     (case firstInet6 s of Some x \<Rightarrow> Some x
      | None \<Rightarrow> List.find (\<lambda>a. Family parse a = Inr 6 \<and> want6 grp) cs)"
  by (induction cs arbitrary: s)
     (auto simp: case6_def case4_def want6_def Let_def split: option.splits)

lemma run_firstInet:
  "\<forall>a\<in>set cs. parse (ToAddr a) \<noteq> None \<Longrightarrow> firstInet (run parse grp cs s) =
     (case firstInet s of Some x \<Rightarrow> Some x
      | None \<Rightarrow> List.find (\<lambda>a. Family parse a = Inr 4 \<and> want4 grp) cs)"
proof (induction cs arbitrary: s)
  case Nil
  then show ?case by (simp split: option.splits)
next
  case (Cons a cs)
  then have "Family parse a = Inr 4 \<or> Family parse a = Inr 6"
    using Family_cases [of parse a] by (auto simp: Family_Panic_iff)
  with Cons show ?case
    by (auto simp: case6_def case4_def want4_def Let_def split: option.splits)
qed

lemma run_result_single:
  "\<not> AllAddresses (Flags grp) \<Longrightarrow> result (run parse grp cs s) = result s"
  by (induction cs arbitrary: s) (auto simp: case6_def case4_def Let_def)

lemma run_result_all:
  "AllAddresses (Flags grp) \<Longrightarrow> \<forall>a\<in>set cs. parse (ToAddr a) \<noteq> None \<Longrightarrow>
   result (run parse grp cs s) = addAll (result s) (filter (famOK parse grp) cs)"
proof (induction cs arbitrary: s)
  case Nil
  then show ?case by simp
next
  case (Cons a cs)
  then have "Family parse a = Inr 4 \<or> Family parse a = Inr 6"
    using Family_cases [of parse a] by (auto simp: Family_Panic_iff)
  with Cons show ?case
    by (auto simp: case6_def case4_def want4_def want6_def famOK_def Let_def)
qed


lemma addAll_distinct:
  "distinct (map Address res) \<Longrightarrow> distinct (map Address (addAll res cs))"
proof (induction cs arbitrary: res)
  case Nil
  then show ?case by simp
next
  case (Cons a cs)
  have "distinct (map Address (if addrExists a res then res else res @ [a]))"
    using Cons.prems by (auto simp: addrExists_def list_ex_iff)
  then show ?case using Cons.IH by simp
qed

lemma find_Some_mem: "List.find Q xs = Some x \<Longrightarrow> x \<in> set xs \<and> Q x"
  by (induction xs) (auto split: if_splits)

lemma addAll_keeps: "set res \<subseteq> set (addAll res cs)"
proof (induction cs arbitrary: res)
  case Nil
  then show ?case by simp
next
  case (Cons a cs)
  have "set res \<subseteq> set (if addrExists a res then res else res @ [a])" by auto
  also have "\<dots> \<subseteq> set (addAll (if addrExists a res then res else res @ [a]) cs)"
    by (rule Cons.IH)
  finally show ?case by simp
qed

lemma addAll_mem:
  "r \<in> set (addAll res cs) \<Longrightarrow>
   r \<in> set res \<or> (\<not> addrExists r res \<and> List.find (\<lambda>c. Address c = Address r) cs = Some r)"
proof (induction cs arbitrary: res)
  case Nil
  then show ?case by simp
next
  case (Cons a cs)
  let ?res = "if addrExists a res then res else res @ [a]"
  from Cons.prems have "r \<in> set (addAll ?res cs)" by simp
  then have "r \<in> set ?res
        \<or> (\<not> addrExists r ?res \<and> List.find (\<lambda>c. Address c = Address r) cs = Some r)"
    by (rule Cons.IH)
  then show ?case
  proof
    assume "r \<in> set ?res"
    then show ?thesis by (auto simp: addrExists_def list_ex_iff split: if_splits)
  next
    assume f: "\<not> addrExists r ?res \<and> List.find (\<lambda>c. Address c = Address r) cs = Some r"
    then have "Address a \<noteq> Address r" "\<not> addrExists r res"
      by (auto simp: addrExists_def list_ex_iff split: if_splits)
    with f show ?thesis by simp
  qed
qed

lemma addAll_subset: "set (addAll res cs) \<subseteq> set res \<union> set cs"
  using addAll_mem find_Some_mem by fastforce

lemma find_filter_same:
  assumes "List.find Q (filter F xs) = Some r" and "\<And>x. Q x \<Longrightarrow> F x = F r"
  shows "List.find Q xs = Some r"
proof -
  from assms(1) have "r \<in> set (filter F xs)" using find_Some_mem by fastforce
  then have Fr: "F r" by simp
  with assms(2) have "\<And>x. Q x \<Longrightarrow> F x" by simp
  then have "List.find Q (filter F xs) = List.find Q xs"
    by (induction xs) auto
  with assms(1) show ?thesis by simp
qed


lemma finish_mem:
  "r \<in> set (selectAddr_finish s) \<Longrightarrow>
   r \<in> set (result s) \<or> firstInet6 s = Some r \<or> firstInet s = Some r"
  by (auto simp: selectAddr_finish_def split: if_splits option.splits)

lemma selectAddr_Inr_parses:
  assumes "selectAddr parse addrs grp = Inr res"
  shows "\<forall>a\<in>set (candidates addrs). parse (ToAddr a) \<noteq> None"
proof (rule ccontr)
  assume "\<not> ?thesis"
  then have "\<exists>a\<in>set (candidates addrs). parse (ToAddr a) = None" by simp
  then have "selectAddr parse addrs grp = Inl Panic"
    unfolding selectAddr_def by (rule loop_panics)
  with assms show False by simp
qed

lemma selectAddr_single:
  assumes "\<not> AllAddresses (Flags grp)"
    and "\<forall>a\<in>set (candidates addrs). parse (ToAddr a) \<noteq> None"
  shows "selectAddr parse addrs grp =
     Inr (case List.find (\<lambda>a. Family parse a = Inr 6 \<and> want6 grp) (candidates addrs) of
            Some a \<Rightarrow> [a]
          | None \<Rightarrow>
              (case List.find (\<lambda>a. Family parse a = Inr 4 \<and> want4 grp) (candidates addrs) of
                 Some a \<Rightarrow> [a]
               | None \<Rightarrow> []))"
proof -
  let ?s = "run parse grp (candidates addrs) \<lparr>firstInet6 = None, firstInet = None, result = []\<rparr>"
  have "result ?s = []" using assms(1) by (simp add: run_result_single)
  moreover have "firstInet6 ?s =
      List.find (\<lambda>a. Family parse a = Inr 6 \<and> want6 grp) (candidates addrs)"
    by (simp add: run_firstInet6)
  moreover have "firstInet ?s =
      List.find (\<lambda>a. Family parse a = Inr 4 \<and> want4 grp) (candidates addrs)"
    using assms(2) by (simp add: run_firstInet)
  ultimately show ?thesis using assms(2)
    by (simp add: selectAddr_def loop_returns selectAddr_finish_def
        cong: option.case_cong split: option.splits)
qed

lemma selectAddr_all:
  assumes "AllAddresses (Flags grp)"
    and "\<forall>a\<in>set (candidates addrs). parse (ToAddr a) \<noteq> None"
  shows "selectAddr parse addrs grp =
     Inr (addAll [] (filter (famOK parse grp) (candidates addrs)))"
proof -
  let ?cs = "candidates addrs"
  let ?s0 = "\<lparr>firstInet6 = None, firstInet = None, result = []\<rparr>"
  have r: "result (run parse grp ?cs ?s0) = addAll [] (filter (famOK parse grp) ?cs)"
    using assms by (simp add: run_result_all)
  have "selectAddr_finish (run parse grp ?cs ?s0) = addAll [] (filter (famOK parse grp) ?cs)"
  proof (cases "filter (famOK parse grp) ?cs")
    case Nil
    then have n6: "List.find (\<lambda>a. Family parse a = Inr 6 \<and> want6 grp) ?cs = None"
      and n4: "List.find (\<lambda>a. Family parse a = Inr 4 \<and> want4 grp) ?cs = None"
      by (auto simp: find_None_iff filter_empty_conv famOK_def)
    show ?thesis using assms(2) r Nil n6 n4
      by (simp add: selectAddr_finish_def run_firstInet6 run_firstInet)
  next
    case (Cons a as)
    then have "a \<in> set (addAll [] (filter (famOK parse grp) ?cs))"
      using addAll_keeps [of "[a]" as] by (simp add: addrExists_def)
    then have "result (run parse grp ?cs ?s0) \<noteq> []" using r by auto
    then show ?thesis using r by (simp add: selectAddr_finish_def)
  qed
  then show ?thesis using assms(2) by (simp add: selectAddr_def loop_returns)
qed

lemmas ex_simps = exGroup_def exGroupOf_def netipDispatch_def ToAddr_def stripCIDR_def isDigit_def
  Family_def statusOK_def want6_def want4_def

text \<open>
  C2: with \<open>allAddresses = false\<close> the selector returns at most one address: the first
  entry, in input order, that is not nil, has an accepted status, is IPv6 and is admitted
  by the family policy; when there is none, the first such IPv4 entry; when there is
  none either, the empty list. The hypothesis on the parser says that the literals the
  loop inspects are addresses.
\<close>

theorem selectAddr_one_address:
  assumes "\<not> AllAddresses (Flags grp)"
    and "\<forall>a\<in>set (candidates addrs). parse (ToAddr a) \<noteq> None"
  shows "selectAddr parse addrs grp =
     Inr (case List.find (\<lambda>a. Family parse a = Inr 6 \<and> want6 grp) (candidates addrs) of
            Some a \<Rightarrow> [a]
          | None \<Rightarrow>
              (case List.find (\<lambda>a. Family parse a = Inr 4 \<and> want4 grp) (candidates addrs) of
                 Some a \<Rightarrow> [a]
               | None \<Rightarrow> []))"
  using assms by (rule selectAddr_single)

theorem selectAddr_one_address_witness:
  "\<not> AllAddresses (Flags (exGroup InetFamilyAny False)) \<and>
   list_all (\<lambda>a. netipDispatch (ToAddr a) \<noteq> None) (candidates
        [Some \<lparr>Address = ''10.0.0.1'', IP.Status = StatusIPActive\<rparr>, None,
         Some \<lparr>Address = ''2001:db8::1/64'', IP.Status = StatusIPActive\<rparr>,
         Some \<lparr>Address = ''2001:db8::2'', IP.Status = StatusIPActive\<rparr>]) \<and>
   selectAddr netipDispatch
        [Some \<lparr>Address = ''10.0.0.1'', IP.Status = StatusIPActive\<rparr>, None,
         Some \<lparr>Address = ''2001:db8::1/64'', IP.Status = StatusIPActive\<rparr>,
         Some \<lparr>Address = ''2001:db8::2'', IP.Status = StatusIPActive\<rparr>]
        (exGroup InetFamilyAny False) =
     Inr [\<lparr>Address = ''2001:db8::1/64'', IP.Status = StatusIPActive\<rparr>]"
proof -
  let ?as = "[Some \<lparr>Address = ''10.0.0.1'', IP.Status = StatusIPActive\<rparr>, None,
         Some \<lparr>Address = ''2001:db8::1/64'', IP.Status = StatusIPActive\<rparr>,
         Some \<lparr>Address = ''2001:db8::2'', IP.Status = StatusIPActive\<rparr>]"
  have h1: "\<not> AllAddresses (Flags (exGroup InetFamilyAny False))" by (simp add: exGroup_def exGroupOf_def)
  have h2: "\<forall>a\<in>set (candidates ?as). netipDispatch (ToAddr a) \<noteq> None"
    by (auto simp: ex_simps)
  have r: "selectAddr netipDispatch ?as (exGroup InetFamilyAny False) =
     Inr [\<lparr>Address = ''2001:db8::1/64'', IP.Status = StatusIPActive\<rparr>]"
    unfolding selectAddr_one_address [OF h1 h2] by (simp add: ex_simps)
  show ?thesis using h1 h2 r by (simp add: list_all_iff)
qed


lemma selectAddr_loop_With:
  "selectAddr_loop parse grp addrs s = selectAddr_loopWith (Family parse) grp addrs s"
  by (induction addrs arbitrary: s rule: candidates.induct)
     (simp_all add: loop_Some statusOK_def split: sum.splits)

lemma selectAddr_With: "selectAddr parse addrs grp = selectAddrWith (Family parse) addrs grp"
  by (simp add: selectAddr_def selectAddrWith_def selectAddr_loop_With)




text \<open>
  C7: every address the selector returns is a non-nil entry of the input whose status is
  active, dhcp or slaac; with \<open>allAddresses = true\<close> no two returned entries have the
  same address literal, and each returned entry is the first inspected entry with its
  literal (so it carries that entry's status).
\<close>

theorem selectAddr_output_sound:
  assumes "selectAddr parse addrs grp = Inr res"
  shows "(\<forall>r\<in>set res. Some r \<in> set addrs \<and>
            (IP.Status r = StatusIPActive \<or> IP.Status r = StatusIPDHCP \<or> IP.Status r = StatusIPSLAAC))
       \<and> (AllAddresses (Flags grp) \<longrightarrow>
            distinct (map Address res) \<and>
            (\<forall>r\<in>set res. List.find (\<lambda>c. Address c = Address r) (candidates addrs) = Some r))"
proof -
  let ?cs = "candidates addrs"
  have p: "\<forall>a\<in>set ?cs. parse (ToAddr a) \<noteq> None"
    using assms by (rule selectAddr_Inr_parses)
  have cs: "\<And>r. r \<in> set ?cs \<Longrightarrow> Some r \<in> set addrs \<and>
            (IP.Status r = StatusIPActive \<or> IP.Status r = StatusIPDHCP \<or> IP.Status r = StatusIPSLAAC)"
    by (auto simp: set_candidates statusOK_def)
  show ?thesis
  proof (cases "AllAddresses (Flags grp)")
    case True
    with p assms have res: "res = addAll [] (filter (famOK parse grp) ?cs)"
      by (simp add: selectAddr_all)
    have sub: "set res \<subseteq> set ?cs"
      using addAll_subset [of "[]" "filter (famOK parse grp) ?cs"] res by auto
    have d: "distinct (map Address res)" unfolding res by (rule addAll_distinct) simp
    have f: "List.find (\<lambda>c. Address c = Address r) ?cs = Some r" if "r \<in> set res" for r
    proof -
      from that res have "List.find (\<lambda>c. Address c = Address r) (filter (famOK parse grp) ?cs) = Some r"
        using addAll_mem [of r "[]" "filter (famOK parse grp) ?cs"] by simp
      moreover have "famOK parse grp x = famOK parse grp r" if "Address x = Address r" for x
        using Family_same_literal [OF that, of parse] by (simp add: famOK_def)
      ultimately show ?thesis by (rule find_filter_same)
    qed
    from sub cs d f True show ?thesis by blast
  next
    case False
    have "set res \<subseteq> set ?cs"
      using assms selectAddr_single [OF False p] find_Some_mem
      by (fastforce split: option.splits)
    with cs False show ?thesis by blast
  qed
qed

theorem selectAddr_output_sound_witness:
  "selectAddr netipDispatch
     [Some \<lparr>Address = ''10.0.0.1/24'', IP.Status = StatusIPDHCP\<rparr>,
      Some \<lparr>Address = ''10.0.0.1/24'', IP.Status = StatusIPActive\<rparr>, None,
      Some \<lparr>Address = ''2001:db8::1'', IP.Status = StatusIPReserved\<rparr>,
      Some \<lparr>Address = ''2001:db8::1'', IP.Status = StatusIPSLAAC\<rparr>]
     (exGroup InetFamilyAny True) =
     Inr [\<lparr>Address = ''10.0.0.1/24'', IP.Status = StatusIPDHCP\<rparr>,
          \<lparr>Address = ''2001:db8::1'', IP.Status = StatusIPSLAAC\<rparr>] \<and>
   AllAddresses (Flags (exGroup InetFamilyAny True)) \<and>
   distinct (map Address [\<lparr>Address = ''10.0.0.1/24'', IP.Status = StatusIPDHCP\<rparr>,
          \<lparr>Address = ''2001:db8::1'', IP.Status = StatusIPSLAAC\<rparr>]) \<and>
   List.find (\<lambda>c. Address c = ''10.0.0.1/24'') (candidates
     [Some \<lparr>Address = ''10.0.0.1/24'', IP.Status = StatusIPDHCP\<rparr>,
      Some \<lparr>Address = ''10.0.0.1/24'', IP.Status = StatusIPActive\<rparr>, None,
      Some \<lparr>Address = ''2001:db8::1'', IP.Status = StatusIPReserved\<rparr>,
      Some \<lparr>Address = ''2001:db8::1'', IP.Status = StatusIPSLAAC\<rparr>]) =
     Some \<lparr>Address = ''10.0.0.1/24'', IP.Status = StatusIPDHCP\<rparr>"
proof -
  let ?as = "[Some \<lparr>Address = ''10.0.0.1/24'', IP.Status = StatusIPDHCP\<rparr>,
      Some \<lparr>Address = ''10.0.0.1/24'', IP.Status = StatusIPActive\<rparr>, None,
      Some \<lparr>Address = ''2001:db8::1'', IP.Status = StatusIPReserved\<rparr>,
      Some \<lparr>Address = ''2001:db8::1'', IP.Status = StatusIPSLAAC\<rparr>]"
  let ?res = "[\<lparr>Address = ''10.0.0.1/24'', IP.Status = StatusIPDHCP\<rparr>,
          \<lparr>Address = ''2001:db8::1'', IP.Status = StatusIPSLAAC\<rparr>]"
  have h: "selectAddr netipDispatch ?as (exGroup InetFamilyAny True) = Inr ?res"
    by (simp add: selectAddr_def loop_Some case6_def case4_def selectAddr_finish_def
        addrExists_def ex_simps)
  have a: "AllAddresses (Flags (exGroup InetFamilyAny True))" by (simp add: exGroup_def exGroupOf_def)
  show ?thesis using h a selectAddr_output_sound [OF h] by simp
qed

text \<open>Cases of \<open>TestSelectAddr\<close>.\<close>

lemma selectAddr_TestSelectAddr:
  "selectAddr netipDispatch
     [Some \<lparr>Address = ''2001:db8::1234'', IP.Status = StatusIPActive\<rparr>,
      Some \<lparr>Address = ''2001:db8::123'', IP.Status = StatusIPActive\<rparr>,
      Some \<lparr>Address = ''10.0.0.0'', IP.Status = StatusIPActive\<rparr>, None]
     (exGroup InetFamilyInet6 True)
   = Inr [\<lparr>Address = ''2001:db8::1234'', IP.Status = StatusIPActive\<rparr>,
          \<lparr>Address = ''2001:db8::123'', IP.Status = StatusIPActive\<rparr>]"
  "selectAddr netipDispatch
     [Some \<lparr>Address = ''2001:db8::1234'', IP.Status = StatusIPActive\<rparr>,
      Some \<lparr>Address = ''2001:db8::123'', IP.Status = StatusIPSLAAC\<rparr>,
      Some \<lparr>Address = ''2001:db8::1234'', IP.Status = StatusIPActive\<rparr>,
      Some \<lparr>Address = ''10.0.0.0'', IP.Status = StatusIPActive\<rparr>]
     (exGroup InetFamilyInet6 True)
   = Inr [\<lparr>Address = ''2001:db8::1234'', IP.Status = StatusIPActive\<rparr>,
          \<lparr>Address = ''2001:db8::123'', IP.Status = StatusIPSLAAC\<rparr>]"
  "selectAddr netipDispatch
     [Some \<lparr>Address = ''2001:db8::1234'', IP.Status = StatusIPActive\<rparr>,
      Some \<lparr>Address = ''10.0.0.0'', IP.Status = StatusIPDHCP\<rparr>,
      Some \<lparr>Address = ''10.0.0.1'', IP.Status = StatusIPActive\<rparr>]
     (exGroup InetFamilyInet False)
   = Inr [\<lparr>Address = ''10.0.0.0'', IP.Status = StatusIPDHCP\<rparr>]"
  "selectAddr netipDispatch
     [Some \<lparr>Address = ''2001:db8::1234'', IP.Status = StatusIPActive\<rparr>]
     (exGroup InetFamilyInet True)
   = Inr []"
  "selectAddr netipDispatch
     [Some \<lparr>Address = ''2001:db8::1234'', IP.Status = StatusIPReserved\<rparr>,
      Some \<lparr>Address = ''10.0.0.0'', IP.Status = StatusIPDeprecated\<rparr>,
      Some \<lparr>Address = ''2001:db8::1234'', IP.Status = StatusIPActive\<rparr>]
     (exGroup InetFamilyAny True)
   = Inr [\<lparr>Address = ''2001:db8::1234'', IP.Status = StatusIPActive\<rparr>]"
  by (simp_all add: selectAddr_def loop_Some case6_def case4_def selectAddr_finish_def
      addrExists_def ex_simps)


declare showNat.simps [simp del]

section \<open>Properties of filter evaluation\<close>

text \<open>
  C5: filter evaluation is the conjunction over all filters of the list, where a filter
  whose label is absent from the label set is false whatever its negate flag and a filter
  whose label is present is \<open>regex matches value\<close> XOR \<open>negate\<close>; the empty list is true.
\<close>

theorem filtersMatch_and:
  "filtersMatch fs labels \<longleftrightarrow>
     (\<forall>f\<in>set fs. case labels (Label f) of
                     None \<Rightarrow> False
                   | Some v \<Rightarrow> regex f v \<noteq> Negate f)"
  by (induction fs) (auto split: option.splits)

theorem filtersMatch_and_witness:
  "filtersMatch exFilters [''netbox_site'' \<mapsto> ''fra1'', ''netbox_role'' \<mapsto> ''leaf''] \<and>
   list_all (\<lambda>f.
      case [''netbox_site'' \<mapsto> ''fra1'', ''netbox_role'' \<mapsto> ''leaf''] (Label f) of
        None \<Rightarrow> False
      | Some v \<Rightarrow> regex f v \<noteq> Negate f) exFilters \<and>
   \<not> filtersMatch exFilters [''netbox_site'' \<mapsto> ''fra1'', ''netbox_role'' \<mapsto> ''spare''] \<and>
   \<not> filtersMatch exFilters [''netbox_site'' \<mapsto> ''fra1''] \<and>
   filtersMatch [] [''netbox_site'' \<mapsto> ''fra1'']"
proof -
  have m: "filtersMatch exFilters [''netbox_site'' \<mapsto> ''fra1'', ''netbox_role'' \<mapsto> ''leaf'']"
    by (simp add: exFilters_def isDigit_def)
  have "\<not> filtersMatch exFilters [''netbox_site'' \<mapsto> ''fra1'', ''netbox_role'' \<mapsto> ''spare'']"
    by (simp add: exFilters_def isDigit_def)
  moreover have "\<not> filtersMatch exFilters [''netbox_site'' \<mapsto> ''fra1'']"
    by (simp add: exFilters_def isDigit_def)
  ultimately show ?thesis
    using m filtersMatch_and [of exFilters "[''netbox_site'' \<mapsto> ''fra1'', ''netbox_role'' \<mapsto> ''leaf'']"]
    by (simp add: list_all_iff)
qed

text \<open>The cases of \<open>TestFiltersMatch\<close>.\<close>

lemma filtersMatch_TestFiltersMatch:
  "filtersMatch testFilters
     [''netbox_foo'' \<mapsto> ''bar'', ''netbox_foo2'' \<mapsto> ''foo'', ''netbox_foo3'' \<mapsto> ''123'',
      ''netbox_foo4'' \<mapsto> ''123'']"
  "\<not> filtersMatch testFilters [''netbox_foo'' \<mapsto> ''bar'', ''netbox_foo2'' \<mapsto> ''foo'']"
  "\<not> filtersMatch testFilters
     [''netbox_foo'' \<mapsto> ''bar'', ''netbox_foo2'' \<mapsto> ''foo'', ''netbox_foo3'' \<mapsto> ''abc'']"
  "\<not> filtersMatch testFilters
     [''netbox_foo'' \<mapsto> ''this'', ''netbox_foo2'' \<mapsto> ''should'', ''netbox_foo3'' \<mapsto> ''fail'']"
  "\<not> filtersMatch testFilters
     [''netbox_foo'' \<mapsto> ''bar'', ''netbox_foo2'' \<mapsto> ''foo'', ''netbox_foo3'' \<mapsto> ''123'',
      ''netbox_foo4'' \<mapsto> ''bar'']"
  by (simp_all add: testFilters_def isDigit_def)


section \<open>Properties of generateCustomFieldLabels\<close>

text \<open>The case of \<open>TestGenerateCustomFieldLabels\<close>.\<close>

lemma generateCustomFieldLabels_Test:
  "map_sum id (\<lambda>r. (map (fst r) [''netbox_foo'', ''netbox_foo2'', ''netbox_foo3'', ''foo''], snd r))
     (generateCustomFieldLabels
        [(''foo'', \<lparr>Datatype = CustomFieldText, Value = VString ''bar''\<rparr>),
         (''foo2'', \<lparr>Datatype = CustomFieldNumber, Value = VNumber 123\<rparr>),
         (''foo3'', \<lparr>Datatype = CustomFieldBool, Value = VBool True\<rparr>)])
   = Inr ([Some ''bar'', Some ''123'', Some ''true'', None], None)"
  by (simp add: generateCustomFieldLabels_def cfCallback_def AsString_def AsFloat_def AsBool_def
      Merge_def fmtInt_def fmtBool_def showNat.simps digit_def)



lemma cfCallback_no_error:
  "cfCallback key val (ls, None) = Inr (ls', gotError) \<Longrightarrow> gotError = None"
  by (auto simp: cfCallback_def AsString_def AsFloat_def AsBool_def Let_def
      split: if_splits cfvalue.splits)

lemma GetAllEntries_no_error:
  "GetAllEntries cfm (ls, None) = Inr (ls', gotError) \<Longrightarrow> gotError = None"
proof (induction cfm arbitrary: ls)
  case Nil
  then show ?case by simp
next
  case (Cons kv cfm)
  obtain key val where kv: "kv = (key, val)" by (cases kv)
  from Cons.prems kv obtain st where st: "cfCallback key val (ls, None) = Inr st"
    and r: "GetAllEntries cfm st = Inr (ls', gotError)"
    by (auto split: sum.splits)
  obtain ls1 e1 where st1: "st = (ls1, e1)" by (cases st)
  with st have "e1 = None" using cfCallback_no_error by blast
  with r st1 show ?case using Cons.IH by blast
qed

lemma generateCustomFieldLabels_no_error:
  "generateCustomFieldLabels cfm = Inr (ls, gotError) \<Longrightarrow> gotError = None"
  unfolding generateCustomFieldLabels_def by (rule GetAllEntries_no_error)

lemma GetAllEntries_ok:
  "\<forall>(k, cf)\<in>set cfm. converts cf \<Longrightarrow>
   \<exists>ls'. GetAllEntries cfm (ls, None) = Inr (ls', None) \<and>
         dom ls' = dom ls \<union> (\<lambda>k. ''netbox_'' @ k) ` fst ` set cfm"
proof (induction cfm arbitrary: ls)
  case Nil
  then show ?case by simp
next
  case (Cons kv cfm)
  obtain key val where kv: "kv = (key, val)" by (cases kv)
  with Cons.prems have c: "converts val" by simp
  then obtain ls1 where s: "cfCallback key val (ls, None) = Inr (ls1, None)"
    and d: "dom ls1 = insert (''netbox_'' @ key) (dom ls)"
    by (auto simp: converts_def cfCallback_def AsString_def AsFloat_def AsBool_def Merge_def
        split: cfvalue.splits)
  from Cons.prems have "\<forall>(k, cf)\<in>set cfm. converts cf" by simp
  then obtain ls' where "GetAllEntries cfm (ls1, None) = Inr (ls', None)"
    and "dom ls' = dom ls1 \<union> (\<lambda>k. ''netbox_'' @ k) ` fst ` set cfm"
    using Cons.IH by blast
  with s d kv show ?case by auto
qed

lemma generateCustomFieldLabels_ok:
  assumes "\<forall>(k, cf)\<in>set cfm. converts cf"
  shows "\<exists>ls. generateCustomFieldLabels cfm = Inr (ls, None) \<and>
              dom ls = (\<lambda>k. ''netbox_'' @ k) ` fst ` set cfm"
  using GetAllEntries_ok [OF assms, of Map.empty]
  by (simp add: generateCustomFieldLabels_def)

subsection \<open>The conversion methods as parameters\<close>

lemma cfCallback_With:
  "cfCallback key val st = cfCallbackWith AsString AsFloat AsBool key val st"
  by (simp add: cfCallback_def cfCallbackWith_def)

lemma GetAllEntries_With:
  "GetAllEntries cfm st = GetAllEntriesWith AsString AsFloat AsBool cfm st"
  by (induction cfm arbitrary: st) (auto simp: cfCallback_With split: sum.splits)

lemma generateCustomFieldLabels_With:
  "generateCustomFieldLabels = generateCustomFieldLabelsWith AsString AsFloat AsBool"
  by (rule ext) (simp add: generateCustomFieldLabels_def generateCustomFieldLabelsWith_def
      GetAllEntries_With)

lemma deviceItem_With:
  "deviceItem parse grp dev st = deviceItemWith generateCustomFieldLabels parse grp dev st"
  by (simp add: deviceItem_def deviceItemWith_def)

lemma serviceItem_With:
  "serviceItem parse grp serv st = serviceItemWith generateCustomFieldLabels parse grp serv st"
  by (simp add: serviceItem_def serviceItemWith_def)

lemma interfaceItem_With:
  "interfaceItem parse api grp iface st
     = interfaceItemWith generateCustomFieldLabels parse api grp iface st"
  by (simp add: interfaceItem_def interfaceItemWith_def)














section \<open>Properties of the assemblers\<close>


lemma skip_simps [simp]:
  "promUpdateError (met (skip grp dev s st)) = promUpdateError (met st)"
  "data (skip grp dev s st) = data st"
  "dynLabels (skip grp dev s st) = dynLabels st"
  "promTargetState (met (skip grp dev s st)) = promTargetState (met st) @ [(File grp, dev, s)]"
  "promIPSkipped (met (skip grp dev s st)) = promIPSkipped (met st)"
  by (simp_all add: skip_def SetTargetStatusMetric_def)

lemma rangeLoop_invariant:
  assumes "\<And>x s s'. body x s = Inr s' \<Longrightarrow> I s \<Longrightarrow> I s'"
    and "rangeLoop body xs st = Inr st'" and "I st"
  shows "I st'"
  using assms(2,3)
proof (induction xs arbitrary: st)
  case Nil
  then show ?case by simp
next
  case (Cons x xs)
  then show ?case using assms(1) by (auto split: sum.splits)
qed

lemma serviceItem_promUpdateError:
  "serviceItem parse grp serv st = Inr st' \<Longrightarrow>
   promUpdateError (met st') = promUpdateError (met st)"
  unfolding serviceItem_def Let_def
  by (auto split: if_splits option.splits sum.splits prod.splits)

lemma deviceItem_promUpdateError:
  "deviceItem parse grp dev st = Inr st' \<Longrightarrow>
   promUpdateError (met st') = promUpdateError (met st)"
  unfolding deviceItem_def Let_def
  by (auto split: if_splits option.splits sum.splits prod.splits)

lemma interfaceItem_promUpdateError:
  "interfaceItem parse api grp iface st = Inr st' \<Longrightarrow>
   promUpdateError (met st') = promUpdateError (met st)"
  unfolding interfaceItem_def Let_def
  by (auto split: if_splits option.splits sum.splits prod.splits)

lemmas eval_simps = ex_simps selectAddr_def loop_Some case6_def case4_def selectAddr_finish_def
  addrExists_def generateCustomFieldLabels_def FiltersMatch_def skip_def
  SetTargetStatusMetric_def Merge_def IsVirtual_def Let_def


lemma rangeLoop_append:
  "rangeLoop body (xs @ ys) st =
     (case rangeLoop body xs st of Inl e \<Rightarrow> Inl e | Inr st' \<Rightarrow> rangeLoop body ys st')"
  by (induction xs arbitrary: st) (auto split: sum.splits)

lemma interfaceItem_disabled:
  "\<not> Enabled iface \<Longrightarrow>
   interfaceItem parse api grp iface st =
     Inr (skip grp (Interface.Device iface) TargetSkippedBadStatus st)"
  by (simp add: interfaceItem_def)

lemma interfaceItem_sameData:
  "sameData s t \<Longrightarrow>
   rel_sum (=) sameData (interfaceItem parse api grp x s) (interfaceItem parse api grp x t)"
  unfolding interfaceItem_def Let_def sameData_def
  by (auto split: if_splits option.splits sum.splits prod.splits)

lemma rangeLoop_sameData:
  assumes "\<And>x s t. sameData s t \<Longrightarrow> rel_sum (=) sameData (body x s) (body x t)"
  shows "sameData s t \<Longrightarrow> rel_sum (=) sameData (rangeLoop body xs s) (rangeLoop body xs t)"
proof (induction xs arbitrary: s t)
  case Nil
  then show ?case by simp
next
  case (Cons x xs)
  have r: "rel_sum (=) sameData (body x s) (body x t)"
    using assms Cons.prems by blast
  show ?case
  proof (cases "body x s")
    case (Inl e)
    with r show ?thesis by (cases "body x t") auto
  next
    case (Inr s')
    with r obtain t' where t': "body x t = Inr t'" "sameData s' t'"
      by (cases "body x t") auto
    with Inr show ?thesis using Cons.IH by simp
  qed
qed

lemma rel_sum_sameData_data:
  "rel_sum (=) sameData r r' \<Longrightarrow> map_sum id data r = map_sum id data r'"
  by (cases r; cases r') (auto simp: sameData_def)

text \<open>
  C10: an interface whose \<open>Enabled\<close> flag is false is skipped at the first check of the
  loop body, whatever the status of its device: the body records
  \<open>TargetSkippedBadStatus\<close> for the device and leaves the result list alone, and the
  result list of the whole loop is the one obtained without that interface.
\<close>

theorem interface_disabled_skipped:
  assumes "\<not> Enabled iface"
  shows "interfaceItem parse api grp iface st =
           Inr (skip grp (Interface.Device iface) TargetSkippedBadStatus st)
       \<and> data (skip grp (Interface.Device iface) TargetSkippedBadStatus st) = data st
       \<and> promTargetState (met (skip grp (Interface.Device iface) TargetSkippedBadStatus st))
           = promTargetState (met st)
             @ [(File grp, Interface.Device iface, TargetSkippedBadStatus)]
       \<and> map_sum id data (rangeLoop (interfaceItem parse api grp) (xs @ iface # ys) st)
           = map_sum id data (rangeLoop (interfaceItem parse api grp) (xs @ ys) st)"
proof -
  let ?f = "interfaceItem parse api grp"
  have i: "?f iface s = Inr (skip grp (Interface.Device iface) TargetSkippedBadStatus s)" for s
    using assms by (rule interfaceItem_disabled)
  have "rel_sum (=) sameData (rangeLoop ?f (xs @ iface # ys) st) (rangeLoop ?f (xs @ ys) st)"
  proof (cases "rangeLoop ?f xs st")
    case (Inl e)
    then show ?thesis by (simp add: rangeLoop_append)
  next
    case (Inr s1)
    have "sameData (skip grp (Interface.Device iface) TargetSkippedBadStatus s1) s1"
      by (simp add: sameData_def)
    then have "rel_sum (=) sameData
        (rangeLoop ?f ys (skip grp (Interface.Device iface) TargetSkippedBadStatus s1))
        (rangeLoop ?f ys s1)"
      by (intro rangeLoop_sameData interfaceItem_sameData)
    with Inr i show ?thesis by (simp add: rangeLoop_append)
  qed
  then have "map_sum id data (rangeLoop ?f (xs @ iface # ys) st)
      = map_sum id data (rangeLoop ?f (xs @ ys) st)"
    by (rule rel_sum_sameData_data)
  with i show ?thesis by simp
qed

subsection \<open>Endpoints of a service\<close>

lemma selectAddr_subset_candidates:
  assumes "selectAddr parse addrs grp = Inr res"
  shows "set res \<subseteq> set (candidates addrs)"
proof -
  let ?cs = "candidates addrs"
  have p: "\<forall>a\<in>set ?cs. parse (ToAddr a) \<noteq> None"
    using assms by (rule selectAddr_Inr_parses)
  show ?thesis
  proof (cases "AllAddresses (Flags grp)")
    case True
    with p assms have "res = addAll [] (filter (famOK parse grp) ?cs)"
      by (simp add: selectAddr_all)
    then show ?thesis
      using addAll_subset [of "[]" "filter (famOK parse grp) ?cs"] by auto
  next
    case False
    show ?thesis
      using assms selectAddr_single [OF False p] find_Some_mem
      by (fastforce split: option.splits)
  qed
qed

lemma selectAddr_single_length:
  assumes "\<not> AllAddresses (Flags grp)" and "selectAddr parse addrs grp = Inr res"
  shows "length res \<le> 1"
proof -
  have p: "\<forall>a\<in>set (candidates addrs). parse (ToAddr a) \<noteq> None"
    using assms(2) by (rule selectAddr_Inr_parses)
  show ?thesis using assms(2) selectAddr_single [OF assms(1) p]
    by (auto split: option.splits)
qed

lemma portTargets_eq:
  "parse (ToAddr ip) \<noteq> None \<Longrightarrow>
   portTargets parse ip ports = Inr (map (endpoint parse ip) ports)"
  by (induction ports) (auto simp: endpoint_def Family_def split: option.splits)

lemma serviceTargets_eq:
  "\<forall>ip\<in>set ips. parse (ToAddr ip) \<noteq> None \<Longrightarrow>
   serviceTargets parse ips ports = Inr (concat (map (\<lambda>ip. map (endpoint parse ip) ports) ips))"
  by (induction ips) (simp_all add: portTargets_eq)

lemma servicePorts_eq:
  "servicePorts grp serv =
     (case Port grp of
        Some p \<Rightarrow> [p]
      | None \<Rightarrow> if \<not> AllAddresses (Flags grp) \<and> 1 < length (Ports serv)
                then [hd (Ports serv)] else Ports serv)"
  by (simp add: servicePorts_def split: option.splits)

lemma serviceItem_appends:
  assumes "serviceItem parse grp serv st = Inr st'" and "data st' \<noteq> data st"
  shows "\<exists>ips ts t. selectAddr parse (IPAddresses serv) grp = Inr ips \<and> ips \<noteq> []
           \<and> serviceTargets parse ips (servicePorts grp serv) = Inr ts
           \<and> data st' = data st @ [t] \<and> Targets t = ts"
  using assms unfolding serviceItem_def Let_def
  by (auto split: if_splits option.splits sum.splits prod.splits)

lemmas item_simps = exAPI_def exDevice_def exInterface_def exService_def exLoop_def
  exMetrics_def exFilters_def eval_simps

text \<open>
  A service group with a port override and \<open>allAddresses = true\<close>: the service has the
  two ports 80 and 443 and one selected address, and the record has the single endpoint
  with the override port, not one endpoint per service port.
\<close>

theorem service_port_override_counterexample:
  "AllAddresses (Flags (exGroupOf GroupTypeService (Some 9100) [] InetFamilyAny True)) \<and>
   Ports (exService [80, 443] [Some \<lparr>Address = ''10.0.0.1'', IP.Status = StatusIPActive\<rparr>])
     = [80, 443] \<and>
   selectAddr netipDispatch
     (IPAddresses (exService [80, 443] [Some \<lparr>Address = ''10.0.0.1'', IP.Status = StatusIPActive\<rparr>]))
     (exGroupOf GroupTypeService (Some 9100) [] InetFamilyAny True)
     = Inr [\<lparr>Address = ''10.0.0.1'', IP.Status = StatusIPActive\<rparr>] \<and>
   map_sum id (\<lambda>s. addresses (data s))
     (serviceItem netipDispatch (exGroupOf GroupTypeService (Some 9100) [] InetFamilyAny True)
        (exService [80, 443] [Some \<lparr>Address = ''10.0.0.1'', IP.Status = StatusIPActive\<rparr>])
        exLoop)
     = Inr [[Some ''10.0.0.1:9100'']]"
  by (simp add: serviceItem_def servicePorts_def addresses_def fmtInt_def showNat.simps
      digit_def item_simps)

text \<open>
  C3 (as amended): when the loop body for a service appends a record, its endpoint
  strings are the selected addresses cross-multiplied, address by address, with the
  effective port list: the override port alone when the group configures one, otherwise
  the ports of the service, cut to the first when \<open>allAddresses\<close> is false and there
  is more than one. With \<open>allAddresses = false\<close> the selector returns one address, so a
  record then has exactly one endpoint (given an override or at least one service port).
\<close>

theorem service_endpoints:
  assumes "serviceItem parse grp serv st = Inr st'" and "data st' \<noteq> data st"
  shows "\<exists>ips t. selectAddr parse (IPAddresses serv) grp = Inr ips
           \<and> data st' = data st @ [t]
           \<and> Targets t = concat (map (\<lambda>ip. map (endpoint parse ip)
                 (case Port grp of
                    Some p \<Rightarrow> [p]
                  | None \<Rightarrow> if \<not> AllAddresses (Flags grp) \<and> 1 < length (Ports serv)
                            then [hd (Ports serv)] else Ports serv)) ips)
           \<and> (\<not> AllAddresses (Flags grp) \<and> (Port grp \<noteq> None \<or> Ports serv \<noteq> [])
                \<longrightarrow> length (Targets t) = 1)"
proof -
  from serviceItem_appends [OF assms] obtain ips ts t where
    s: "selectAddr parse (IPAddresses serv) grp = Inr ips" and ne: "ips \<noteq> []"
    and ts: "serviceTargets parse ips (servicePorts grp serv) = Inr ts"
    and d: "data st' = data st @ [t]" "Targets t = ts" by blast
  have "\<forall>ip\<in>set ips. parse (ToAddr ip) \<noteq> None"
    using selectAddr_Inr_parses [OF s] selectAddr_subset_candidates [OF s] by blast
  then have e: "ts = concat (map (\<lambda>ip. map (endpoint parse ip) (servicePorts grp serv)) ips)"
    using ts by (simp add: serviceTargets_eq)
  have one: "length ts = 1"
    if h1: "\<not> AllAddresses (Flags grp)" and h2: "Port grp \<noteq> None \<or> Ports serv \<noteq> []"
  proof -
    have "length ips \<le> 1" using h1 s by (rule selectAddr_single_length)
    with ne obtain a where a: "ips = [a]" by (cases ips) auto
    from h1 h2 have "length (servicePorts grp serv) = 1"
      by (cases "Ports serv") (auto simp: servicePorts_def Let_def split: option.splits)
    with a e show ?thesis by simp
  qed
  from s d e one show ?thesis unfolding servicePorts_eq by blast
qed

theorem service_endpoints_witness:
  "\<exists>st' ips t.
     serviceItem netipDispatch (exGroupOf GroupTypeService None [] InetFamilyAny False)
       (exService [9100, 9200]
          [Some \<lparr>Address = ''10.0.0.1'', IP.Status = StatusIPActive\<rparr>,
           Some \<lparr>Address = ''10.0.0.2'', IP.Status = StatusIPActive\<rparr>]) exLoop = Inr st'
     \<and> data st' \<noteq> data exLoop
     \<and> selectAddr netipDispatch
          [Some \<lparr>Address = ''10.0.0.1'', IP.Status = StatusIPActive\<rparr>,
           Some \<lparr>Address = ''10.0.0.2'', IP.Status = StatusIPActive\<rparr>]
          (exGroupOf GroupTypeService None [] InetFamilyAny False) = Inr ips
     \<and> data st' = [t] \<and> length (Targets t) = 1
     \<and> addresses (data st') = [[Some ''10.0.0.1:9100'']]"
proof -
  let ?g = "exGroupOf GroupTypeService None [] InetFamilyAny False"
  let ?as = "[Some \<lparr>Address = ''10.0.0.1'', IP.Status = StatusIPActive\<rparr>,
           Some \<lparr>Address = ''10.0.0.2'', IP.Status = StatusIPActive\<rparr>]"
  let ?s = "exService [9100, 9200] ?as"
  have "\<exists>st'. serviceItem netipDispatch ?g ?s exLoop = Inr st' \<and> data st' \<noteq> data exLoop
      \<and> addresses (data st') = [[Some ''10.0.0.1:9100'']]"
    by (simp add: serviceItem_def servicePorts_def addresses_def fmtInt_def showNat.simps
        digit_def item_simps)
  then obtain st' where h1: "serviceItem netipDispatch ?g ?s exLoop = Inr st'"
    and h2: "data st' \<noteq> data exLoop"
    and a: "addresses (data st') = [[Some ''10.0.0.1:9100'']]" by blast
  have f: "\<not> AllAddresses (Flags ?g)" "Ports ?s \<noteq> []" "IPAddresses ?s = ?as"
    "data exLoop = []"
    by (simp_all add: exGroupOf_def exService_def exLoop_def)
  from service_endpoints [OF h1 h2] f h1 h2 a show ?thesis by auto
qed

subsection \<open>Skipped interfaces\<close>

theorem interface_disabled_skipped_witness:
  "\<not> Enabled (exInterface False ''fra1'') \<and>
   Device.Status (Interface.Device (exInterface False ''fra1'')) = StatusDeviceActive \<and>
   map_sum id (\<lambda>s. (data s, map (\<lambda>ob. snd (snd ob)) (promTargetState (met s))))
     (interfaceItem netipDispatch (exAPI [] [] [])
        (exGroupOf GroupTypeInterfaceTag None [] InetFamilyAny False)
        (exInterface False ''fra1'') exLoop)
     = Inr ([], [TargetSkippedBadStatus]) \<and>
   map_sum id (\<lambda>s. addresses (data s))
     (rangeLoop (interfaceItem netipDispatch (exAPI [] [] [])
         (exGroupOf GroupTypeInterfaceTag None [] InetFamilyAny False))
        [exInterface False ''fra1'', exInterface True ''fra1''] exLoop)
     = Inr [[Some ''10.0.0.7'']]"
proof -
  let ?g = "exGroupOf GroupTypeInterfaceTag None [] InetFamilyAny False"
  let ?f = "interfaceItem netipDispatch (exAPI [] [] []) ?g"
  have h: "\<not> Enabled (exInterface False ''fra1'')" by (simp add: exInterface_def)
  have a: "Device.Status (Interface.Device (exInterface False ''fra1'')) = StatusDeviceActive"
    by (simp add: exInterface_def exDevice_def)
  note t = interface_disabled_skipped [OF h, of netipDispatch "exAPI [] [] []" ?g exLoop "[]"
      "[exInterface True ''fra1'']"]
  have e: "map_sum id (\<lambda>s. addresses (data s)) (rangeLoop ?f [exInterface True ''fra1''] exLoop)
      = Inr [[Some ''10.0.0.7'']]"
    by (simp add: interfaceItem_def addresses_def item_simps)
  have "map_sum id (\<lambda>s. addresses (data s))
      (rangeLoop ?f [exInterface False ''fra1'', exInterface True ''fra1''] exLoop)
      = map_sum id (\<lambda>s. addresses (data s)) (rangeLoop ?f [exInterface True ''fra1''] exLoop)"
    using t by (cases "rangeLoop ?f [exInterface False ''fra1'', exInterface True ''fra1''] exLoop";
        cases "rangeLoop ?f [exInterface True ''fra1''] exLoop") auto
  with e have l: "map_sum id (\<lambda>s. addresses (data s))
      (rangeLoop ?f [exInterface False ''fra1'', exInterface True ''fra1''] exLoop)
      = Inr [[Some ''10.0.0.7'']]" by simp
  have i: "map_sum id (\<lambda>s. (data s, map (\<lambda>ob. snd (snd ob)) (promTargetState (met s))))
     (?f (exInterface False ''fra1'') exLoop) = Inr ([], [TargetSkippedBadStatus])"
    using t by (simp add: exLoop_def exMetrics_def)
  from h a i l show ?thesis by blast
qed

subsection \<open>Filter mismatches\<close>

text \<open>
  The filter check in the three loop bodies, on an item that has passed the status check
  and whose custom fields are empty.
\<close>

lemma deviceItem_filter_mismatch:
  assumes "Device.Status dev = StatusDeviceActive" and "Device.CustomFields dev = []"
    and "\<not> FiltersMatch grp
       \<lparr>Targets = [],
        Labels = Merge (Merge (Merge
           [''netbox_name'' \<mapsto> Device.Name dev, ''netbox_rack'' \<mapsto> Rack dev,
            ''netbox_site'' \<mapsto> Site dev, ''netbox_tenant'' \<mapsto> Tenant dev,
            ''netbox_role'' \<mapsto> Role dev, ''netbox_platform'' \<mapsto> Platform dev,
            ''netbox_serial_number'' \<mapsto> SerialNumber dev,
            ''netbox_asset_tag'' \<mapsto> AssetTag dev] Map.empty)
           (if IsVirtual dev then [''is_vm'' \<mapsto> ''true''] else dynLabels st))
           (Group.Labels grp),
        Source = ''netbox_sd''\<rparr>"
  shows "\<exists>st'. deviceItem parse grp dev st = Inr st' \<and> data st' = data st
      \<and> promTargetState (met st')
          = promTargetState (met st) @ [(File grp, dev, TargetSkippedNotMatchingFilters)]"
  using assms by (simp add: deviceItem_def generateCustomFieldLabels_def Let_def)

lemma serviceItem_filter_mismatch:
  assumes "VM serv = None" and "Service.Device serv = Some dev"
    and "Device.Status dev = StatusDeviceActive" and "Device.CustomFields dev = []"
    and "Service.CustomFields serv = []"
    and "\<not> FiltersMatch grp
       \<lparr>Targets = [],
        Labels = Merge (Merge (Merge (Merge
           [''netbox_service'' \<mapsto> Service.Name serv,
            ''netbox_name'' \<mapsto> Device.Name dev, ''netbox_rack'' \<mapsto> Rack dev,
            ''netbox_site'' \<mapsto> Site dev, ''netbox_tenant'' \<mapsto> Tenant dev,
            ''netbox_role'' \<mapsto> Role dev, ''netbox_platform'' \<mapsto> Platform dev,
            ''netbox_serial_number'' \<mapsto> SerialNumber dev,
            ''netbox_asset_tag'' \<mapsto> AssetTag dev] Map.empty) Map.empty)
           (if IsVirtual dev then [''is_vm'' \<mapsto> ''true''] else dynLabels st))
           (Group.Labels grp),
        Source = ''netbox_sd''\<rparr>"
  shows "\<exists>st'. serviceItem parse grp serv st = Inr st' \<and> data st' = data st
      \<and> promTargetState (met st')
          = promTargetState (met st) @ [(File grp, dev, TargetSkippedNotMatchingFilters)]"
  using assms by (simp add: serviceItem_def generateCustomFieldLabels_def Let_def)

lemma interfaceItem_filter_mismatch:
  assumes "Device.Status (Interface.Device iface) = StatusDeviceActive" and "Enabled iface"
    and "Device.CustomFields (Interface.Device iface) = []"
    and "Interface.CustomFields iface = []"
    and "\<not> FiltersMatch grp
       \<lparr>Targets = [],
        Labels = Merge (Merge (Merge (Merge
           [''netbox_name'' \<mapsto> Device.Name (Interface.Device iface),
            ''netbox_rack'' \<mapsto> Rack (Interface.Device iface),
            ''netbox_site'' \<mapsto> Site (Interface.Device iface),
            ''netbox_tenant'' \<mapsto> Tenant (Interface.Device iface),
            ''netbox_role'' \<mapsto> Role (Interface.Device iface),
            ''netbox_platform'' \<mapsto> Platform (Interface.Device iface),
            ''netbox_serial_number'' \<mapsto> SerialNumber (Interface.Device iface),
            ''netbox_asset_tag'' \<mapsto> AssetTag (Interface.Device iface)] Map.empty) Map.empty)
           (if IsVirtual (Interface.Device iface) then [''is_vm'' \<mapsto> ''true'']
            else dynLabels st))
           (Group.Labels grp),
        Source = ''netbox_sd''\<rparr>"
  shows "\<exists>st'. interfaceItem parse api grp iface st = Inr st' \<and> data st' = data st
      \<and> promTargetState (met st') = promTargetState (met st)"
  using assms by (simp add: interfaceItem_def generateCustomFieldLabels_def Let_def)

lemma interfaceItem_notMatching:
  "interfaceItem parse api grp iface st = Inr st' \<Longrightarrow>
   notMatching (promTargetState (met st')) = notMatching (promTargetState (met st))"
  unfolding interfaceItem_def Let_def
  by (auto split: if_splits option.splits sum.splits prod.splits)

text \<open>
  C8: the interface-tag assembler never records \<open>TargetSkippedNotMatchingFilters\<close>:
  the observations with that state are the same after the call as before it. Its loop
  body leaves the iteration on a filter mismatch without a call of
  \<open>SetTargetStatusMetric\<close>, where the bodies of the device-tag and service assemblers
  make that call; the candidate is left out of the result in all three.
\<close>

theorem interface_tag_filter_mismatch_unrecorded:
  assumes "getTargetsByInterfaceTag parse api grp m = Inr (ts, m')"
  shows "filter (\<lambda>ob. snd (snd ob) = TargetSkippedNotMatchingFilters) (promTargetState m')
       = filter (\<lambda>ob. snd (snd ob) = TargetSkippedNotMatchingFilters) (promTargetState m)"
proof -
  from assms obtain ifList st where
    l: "rangeLoop (interfaceItem parse api grp) ifList
          \<lparr>dynLabels = Map.empty, data = [], met = m\<rparr> = Inr st"
    and m': "m' = met st"
    by (auto simp: getTargetsByInterfaceTag_def split: sum.splits if_splits)
  have "notMatching (promTargetState (met st)) = notMatching (promTargetState m)"
    by (rule rangeLoop_invariant
          [where I = "\<lambda>s. notMatching (promTargetState (met s)) = notMatching (promTargetState m)",
           OF _ l])
       (simp_all add: interfaceItem_notMatching)
  with m' show ?thesis by simp
qed

theorem interface_tag_filter_mismatch_unrecorded_witness:
  "\<not> FiltersMatch (exGroupOf GroupTypeInterfaceTag None exFilters InetFamilyAny False)
       \<lparr>Targets = [],
        Labels = [''netbox_name'' \<mapsto> ''sw1'', ''netbox_rack'' \<mapsto> ''r12'',
                  ''netbox_site'' \<mapsto> ''ams1'', ''netbox_tenant'' \<mapsto> ''noc'',
                  ''netbox_role'' \<mapsto> ''leaf'', ''netbox_platform'' \<mapsto> ''junos'',
                  ''netbox_serial_number'' \<mapsto> ''SN-1'', ''netbox_asset_tag'' \<mapsto> ''A-1''],
        Source = ''netbox_sd''\<rparr> \<and>
   getTargetsByInterfaceTag netipDispatch (exAPI [] [] [exInterface True ''ams1''])
     (exGroupOf GroupTypeInterfaceTag None exFilters InetFamilyAny False) exMetrics
     = Inr ([], exMetrics) \<and>
   filter (\<lambda>ob. snd (snd ob) = TargetSkippedNotMatchingFilters) (promTargetState exMetrics) = [] \<and>
   map_sum id (\<lambda>r. promTargetState (snd r))
     (getTargetsByDeviceTag netipDispatch (exAPI [] [exDevice ''sw1'' ''ams1''] [])
        (exGroupOf GroupTypeDeviceTag None exFilters InetFamilyAny False) exMetrics)
     = Inr [(''targets.yml'', exDevice ''sw1'' ''ams1'', TargetSkippedNotMatchingFilters)]"
proof -
  let ?g = "exGroupOf GroupTypeInterfaceTag None exFilters InetFamilyAny False"
  have h: "getTargetsByInterfaceTag netipDispatch (exAPI [] [] [exInterface True ''ams1'']) ?g
      exMetrics = Inr ([], exMetrics)"
    by (simp add: getTargetsByInterfaceTag_def interfaceItem_def item_simps)
  have d: "map_sum id (\<lambda>r. promTargetState (snd r))
     (getTargetsByDeviceTag netipDispatch (exAPI [] [exDevice ''sw1'' ''ams1''] [])
        (exGroupOf GroupTypeDeviceTag None exFilters InetFamilyAny False) exMetrics)
     = Inr [(''targets.yml'', exDevice ''sw1'' ''ams1'', TargetSkippedNotMatchingFilters)]"
    by (simp add: getTargetsByDeviceTag_def deviceItem_def item_simps)
  have f: "\<not> FiltersMatch ?g
       \<lparr>Targets = [],
        Labels = [''netbox_name'' \<mapsto> ''sw1'', ''netbox_rack'' \<mapsto> ''r12'',
                  ''netbox_site'' \<mapsto> ''ams1'', ''netbox_tenant'' \<mapsto> ''noc'',
                  ''netbox_role'' \<mapsto> ''leaf'', ''netbox_platform'' \<mapsto> ''junos'',
                  ''netbox_serial_number'' \<mapsto> ''SN-1'', ''netbox_asset_tag'' \<mapsto> ''A-1''],
        Source = ''netbox_sd''\<rparr>"
    by (simp add: item_simps)
  show ?thesis
    using h d f interface_tag_filter_mismatch_unrecorded [OF h]
    by (simp add: exMetrics_def)
qed


section \<open>Properties of the group worker\<close>

lemma getTargetsByService_promUpdateError:
  assumes "getTargetsByService parse api grp m = Inr (ts, m')"
  shows "promUpdateError m' = promUpdateError m"
proof -
  from assms obtain servList st where
    l: "rangeLoop (serviceItem parse grp) servList \<lparr>dynLabels = Map.empty, data = [], met = m\<rparr> = Inr st"
    and m': "m' = met st"
    by (auto simp: getTargetsByService_def split: sum.splits)
  have "promUpdateError (met st) = promUpdateError m"
    by (rule rangeLoop_invariant [where I = "\<lambda>s. promUpdateError (met s) = promUpdateError m", OF _ l])
       (simp_all add: serviceItem_promUpdateError)
  with m' show ?thesis by simp
qed

lemma getTargetsByDeviceTag_promUpdateError:
  assumes "getTargetsByDeviceTag parse api grp m = Inr (ts, m')"
  shows "promUpdateError m' = promUpdateError m"
proof -
  from assms obtain devList st where
    l: "rangeLoop (deviceItem parse grp) devList \<lparr>dynLabels = Map.empty, data = [], met = m\<rparr> = Inr st"
    and m': "m' = met st"
    by (auto simp: getTargetsByDeviceTag_def split: sum.splits if_splits)
  have "promUpdateError (met st) = promUpdateError m"
    by (rule rangeLoop_invariant [where I = "\<lambda>s. promUpdateError (met s) = promUpdateError m", OF _ l])
       (simp_all add: deviceItem_promUpdateError)
  with m' show ?thesis by simp
qed

lemma getTargetsByInterfaceTag_promUpdateError:
  assumes "getTargetsByInterfaceTag parse api grp m = Inr (ts, m')"
  shows "promUpdateError m' = promUpdateError m"
proof -
  from assms obtain ifList st where
    l: "rangeLoop (interfaceItem parse api grp) ifList \<lparr>dynLabels = Map.empty, data = [], met = m\<rparr> = Inr st"
    and m': "m' = met st"
    by (auto simp: getTargetsByInterfaceTag_def split: sum.splits if_splits)
  have "promUpdateError (met st) = promUpdateError m"
    by (rule rangeLoop_invariant [where I = "\<lambda>s. promUpdateError (met s) = promUpdateError m", OF _ l])
       (simp_all add: interfaceItem_promUpdateError)
  with m' show ?thesis by simp
qed

lemma assemble_promUpdateError:
  "assemble parse api grp m = Some (Inr (ts, m')) \<Longrightarrow> promUpdateError m' = promUpdateError m"
  by (auto simp: assemble_def getTargetsByService_promUpdateError
      getTargetsByDeviceTag_promUpdateError getTargetsByInterfaceTag_promUpdateError
      split: if_splits)

text \<open>A failed inventory query makes the selected assembler return the error.\<close>

lemma query_failure_service:
  "Type grp = GroupTypeService \<Longrightarrow> GetServicesByName api (Group.Match grp) = Inl err \<Longrightarrow>
   assemble parse api grp m = Some (Inl err)"
  by (simp add: assemble_def getTargetsByService_def)

lemma query_failure_device:
  "Type grp = GroupTypeDeviceTag \<Longrightarrow>
   GetDevicesByTag api (Group.Match grp) = Inl err
   \<or> (\<exists>devs. GetDevicesByTag api (Group.Match grp) = Inr devs) \<and> IncludeVMs (Flags grp)
      \<and> GetVMsByTag api (Group.Match grp) = Inl err \<Longrightarrow>
   assemble parse api grp m = Some (Inl err)"
  by (auto simp: assemble_def getTargetsByDeviceTag_def)

lemma query_failure_interface:
  "Type grp = GroupTypeInterfaceTag \<Longrightarrow>
   GetInterfacesByTag api (Group.Match grp) = Inl err
   \<or> (\<exists>ifs. GetInterfacesByTag api (Group.Match grp) = Inr ifs) \<and> IncludeVMs (Flags grp)
      \<and> GetVirtualInterfacesByTag api (Group.Match grp) = Inl err \<Longrightarrow>
   assemble parse api grp m = Some (Inl err)"
  by (auto simp: assemble_def getTargetsByInterfaceTag_def)

text \<open>
  C1: when the selected assembler returns an error, the cycle ends normally, no file has
  changed (whatever \<open>os.WriteFile\<close> would have done: it is not called), the group's
  \<open>update_error\<close> counter is one higher, and \<open>lastRun\<close> is the reading of the clock at
  the end of the cycle, so that the first tick at which the scan interval has elapsed
  since then runs the next cycle.
\<close>

theorem worker_discards_on_query_failure:
  assumes "assemble parse api grp (wmet st) = Some (Inl err)" and "err \<noteq> Panic"
    and "ScanInterval grp \<le> now - runEnd e"
  shows "\<exists>st'. workerCycle parse api e grp st = Inr st'
           \<and> files st' = files st
           \<and> promUpdateError (wmet st') (File grp) = promUpdateError (wmet st) (File grp) + 1
           \<and> lastRun st' = runEnd e
           \<and> workerTick parse api e' grp now st' = workerCycle parse api e' grp st'"
  using assms
  by (cases err)
     (simp_all add: workerCycle_def commitOrDiscard_def finishCycle_def workerTick_def)

theorem worker_discards_on_query_failure_witness:
  "assemble netipDispatch downAPI (exGroupOf GroupTypeDeviceTag None [] InetFamilyAny False)
     (wmet exState) = Some (Inl (ErrQuery ''unexpected status code'')) \<and>
   ErrQuery ''unexpected status code'' \<noteq> Panic \<and>
   ScanInterval (exGroupOf GroupTypeDeviceTag None [] InetFamilyAny False) \<le> 113 - runEnd (exEnv True) \<and>
   (\<exists>st'. workerCycle netipDispatch downAPI (exEnv True)
            (exGroupOf GroupTypeDeviceTag None [] InetFamilyAny False) exState = Inr st'
      \<and> files st' = files exState
      \<and> promUpdateError (wmet st') ''targets.yml'' = 1
      \<and> lastRun st' = 103
      \<and> workerTick netipDispatch downAPI (exEnv True)
            (exGroupOf GroupTypeDeviceTag None [] InetFamilyAny False) 113 st'
          = workerCycle netipDispatch downAPI (exEnv True)
            (exGroupOf GroupTypeDeviceTag None [] InetFamilyAny False) st')"
proof -
  let ?g = "exGroupOf GroupTypeDeviceTag None [] InetFamilyAny False"
  have q: "GetDevicesByTag downAPI (Group.Match ?g) = Inl (ErrQuery ''unexpected status code'')"
    by (simp add: downAPI_def)
  have h1: "assemble netipDispatch downAPI ?g (wmet exState)
      = Some (Inl (ErrQuery ''unexpected status code''))"
    by (rule query_failure_device) (simp_all add: exGroupOf_def downAPI_def)
  have h2: "ErrQuery ''unexpected status code'' \<noteq> Panic" by simp
  have h3: "ScanInterval ?g \<le> 113 - runEnd (exEnv True)"
    by (simp add: exGroupOf_def exEnv_def)
  have f: "File ?g = ''targets.yml''" "runEnd (exEnv True) = 103"
    "promUpdateError (wmet exState) ''targets.yml'' = 0"
    by (simp_all add: exGroupOf_def exEnv_def exState_def exMetrics_def)
  show ?thesis
    using h1 h2 h3 worker_discards_on_query_failure [OF h1 h2 h3, where e' = "exEnv True"]
    unfolding f by simp
qed

text \<open>
  C9: when the assembler succeeds and \<open>os.WriteFile\<close> fails, the cycle ends normally
  with the assembled list in \<open>targets\<close> and \<open>failed\<close> set, but the \<open>update_error\<close>
  counter of no group has changed: the increment sits in the \<open>else\<close> branch of
  \<open>if !failed\<close>, which was decided before the write.
\<close>

theorem worker_write_failure_not_counted:
  assumes "\<exists>ts m bytes fs werr.
      assemble parse api grp (wmet st) = Some (Inr (ts, m)) \<and> Marshal e ts = Inr bytes
      \<and> WriteFile e (files st) (File grp) bytes = (fs, Some werr)"
  shows "\<exists>st' ts m. workerCycle parse api e grp st = Inr st'
      \<and> assemble parse api grp (wmet st) = Some (Inr (ts, m))
      \<and> targets st' = ts \<and> failed st'
      \<and> promUpdateError (wmet st') = promUpdateError (wmet st)"
proof -
  from assms obtain ts m bytes fs werr where
    a: "assemble parse api grp (wmet st) = Some (Inr (ts, m))"
    and b: "Marshal e ts = Inr bytes"
    and w: "WriteFile e (files st) (File grp) bytes = (fs, Some werr)" by blast
  have p: "promUpdateError m = promUpdateError (wmet st)"
    using a by (rule assemble_promUpdateError)
  show ?thesis using a b w p
    by (simp add: workerCycle_def commitOrDiscard_def finishCycle_def)
qed

theorem worker_write_failure_not_counted_witness:
  "(\<exists>ts m bytes fs werr.
      assemble netipDispatch (exAPI [] [exDevice ''sw1'' ''fra1''] [])
        (exGroupOf GroupTypeDeviceTag None [] InetFamilyAny False) (wmet exState)
        = Some (Inr (ts, m))
      \<and> Marshal (exEnv False) ts = Inr bytes
      \<and> WriteFile (exEnv False) (files exState)
           (File (exGroupOf GroupTypeDeviceTag None [] InetFamilyAny False)) bytes
         = (fs, Some werr)) \<and>
   (\<exists>st' ts m. workerCycle netipDispatch (exAPI [] [exDevice ''sw1'' ''fra1''] []) (exEnv False)
        (exGroupOf GroupTypeDeviceTag None [] InetFamilyAny False) exState = Inr st'
      \<and> assemble netipDispatch (exAPI [] [exDevice ''sw1'' ''fra1''] [])
        (exGroupOf GroupTypeDeviceTag None [] InetFamilyAny False) (wmet exState)
        = Some (Inr (ts, m))
      \<and> targets st' = ts \<and> length ts = 1 \<and> failed st'
      \<and> promUpdateError (wmet st') ''targets.yml'' = 0)"
proof -
  let ?api = "exAPI [] [exDevice ''sw1'' ''fra1''] []"
  let ?g = "exGroupOf GroupTypeDeviceTag None [] InetFamilyAny False"
  have a: "\<exists>ts m. assemble netipDispatch ?api ?g (wmet exState) = Some (Inr (ts, m)) \<and> length ts = 1"
    by (simp add: assemble_def getTargetsByDeviceTag_def deviceItem_def exAPI_def exDevice_def
        eval_simps)
  then obtain ts m where tm: "assemble netipDispatch ?api ?g (wmet exState) = Some (Inr (ts, m))"
    and l: "length ts = 1" by blast
  have h: "\<exists>ts m bytes fs werr.
      assemble netipDispatch ?api ?g (wmet exState) = Some (Inr (ts, m))
      \<and> Marshal (exEnv False) ts = Inr bytes
      \<and> WriteFile (exEnv False) (files exState) (File ?g) bytes = (fs, Some werr)"
    using tm by (simp add: exEnv_def)
  from worker_write_failure_not_counted [OF h] obtain st' ts' m' where
    r: "workerCycle netipDispatch ?api (exEnv False) ?g exState = Inr st'"
      "assemble netipDispatch ?api ?g (wmet exState) = Some (Inr (ts', m'))"
      "targets st' = ts'" "failed st'" "promUpdateError (wmet st') = promUpdateError (wmet exState)"
    by blast
  from r(2) tm l have "length ts' = 1" by simp
  moreover have "promUpdateError (wmet st') ''targets.yml'' = 0"
    using r(5) by (simp add: exState_def exMetrics_def)
  ultimately show ?thesis using h r by blast
qed

end
